theory Spec2Isabelle
  imports Main
begin

section \<open>The command-line driver \<^verbatim>\<open>src/cli.ts\<close>\<close>

text \<open>
  The driver parses an argument vector, and then either runs a suite of snapshot tests read from
  a descriptor file (\<^verbatim>\<open>--test\<close>) or forwards one list of ES modules to the checker. Everything it
  calls outside \<^verbatim>\<open>cli.ts\<close> (the option parser, path and file-system functions of the platform,
  the JSON parser, the diff renderer and the checker itself) is a parameter of the model,
  collected in the record \<open>lib\<close>, so every theorem holds for every behaviour of those
  collaborators. The effects of the driver are explicit: the state of the file system is
  threaded through the calls, and every console line, checker invocation, directory creation
  and file write is appended to a trace.
\<close>

subsection \<open>Interfaces (lines 9--49)\<close>

record MainOptions =
  args :: "string list"

text \<open>\<^verbatim>\<open>output\<close> and \<^verbatim>\<open>help\<close> are reserved words of the theory language, hence the primed field names.\<close>

record CheckerCLIOptions =
  cwd :: "string option"
  output' :: "string option"
  propertyReadSideEffects :: bool
  resolveExternals :: bool
  printDependencies :: bool
  useBuildOptimizer :: bool
  useMinifier :: bool
  warnings :: bool

text \<open>The field \<^verbatim>\<open>esModules: string | string[]\<close> of a test record.\<close>

datatype string_or_strings = OneString string | StringArray "string list"

record Test =
  esModules :: string_or_strings
  options :: "CheckerCLIOptions option"
  expectedOutput :: string

record TestJson =
  tests :: "Test list"

record FailedExpectation =
  testDescription :: string
  diff :: string

text \<open>
  \<^verbatim>\<open>ParsedCliOptions\<close>: the checker flags, the test flags, \<^verbatim>\<open>help\<close>, a \<^verbatim>\<open>cwd\<close> that the parser's
  default always defines, and the positional arguments \<^verbatim>\<open>_\<close> (named \<open>positionals\<close> here).
\<close>

record ParsedCliOptions =
  cwd :: string
  output' :: "string option"
  propertyReadSideEffects :: bool
  resolveExternals :: bool
  printDependencies :: bool
  useBuildOptimizer :: bool
  useMinifier :: bool
  warnings :: bool
  test :: "string option"
  update :: bool
  help' :: bool
  positionals :: "string list"

text \<open>
  Modelled from the spec: the type \<^verbatim>\<open>CheckSideEffectsOptions\<close> is declared in \<^verbatim>\<open>./checker\<close>, which is
  not among the sources. The spec lists its fields (working directory, optional output path,
  the six toggles and the sequence of module paths), the same that \<^verbatim>\<open>cli.ts\<close> assembles at lines
  112--116 and 173--183. In suite mode only \<^verbatim>\<open>esModules\<close> and \<^verbatim>\<open>cwd\<close> are always present and the
  others come from the test's own options, so they are optional here.
\<close>

record CheckSideEffectsOptions =
  esModules :: "string list"
  cwd :: string
  output' :: "string option"
  propertyReadSideEffects :: "bool option"
  resolveExternals :: "bool option"
  printDependencies :: "bool option"
  useBuildOptimizer :: "bool option"
  useMinifier :: "bool option"
  warnings :: "bool option"

subsection \<open>Effects, exceptions and the collaborators\<close>

text \<open>
  What \<^verbatim>\<open>main\<close> can raise: a string thrown by \<^verbatim>\<open>cli.ts\<close> itself (lines 95, 157, 169), the
  \<^verbatim>\<open>TypeError\<close> of calling \<^verbatim>\<open>endsWith\<close> on \<^verbatim>\<open>undefined\<close> (line 192, reached from line 166 when
  there is no positional argument), or an error raised inside a collaborator.
\<close>

datatype exn = Thrown string | TypeError | External string

datatype 'a completion = Normal 'a | Throw exn

text \<open>What \<^verbatim>\<open>main\<close> resolves to: nothing, or the checker's own result in single-run mode.\<close>

datatype returned = Undefined | CheckerResult string

datatype event =
    ConsoleLog string
  | CheckSideEffects CheckSideEffectsOptions
  | MkdirSync string
  | WriteFileSync string string

record 'fs world =
  files :: 'fs
  trace :: "event list"

text \<open>
  The collaborators. \<open>minimist\<close> is the parser applied with the option table of lines 53--84
  (including the default \<^verbatim>\<open>process.cwd()\<close>); \<open>resolve\<close> is used with two arguments only;
  \<open>JSON_parse\<close> stands for \<^verbatim>\<open>JSON.parse\<close> followed by the cast to \<^verbatim>\<open>TestJson\<close>;
  \<open>checkSideEffects\<close> is the checker of \<^verbatim>\<open>./checker\<close>, which is not among the sources: it may
  change the file system and its result is a string, as the cast at line 119 says. A
  collaborator that raises returns \<open>Inl\<close> with a description of the error.
\<close>

record 'fs lib =
  minimist :: "string list \<Rightarrow> ParsedCliOptions"
  resolve :: "string \<Rightarrow> string \<Rightarrow> string"
  dirname :: "string \<Rightarrow> string"
  existsSync :: "'fs \<Rightarrow> string \<Rightarrow> bool"
  readFileSync :: "'fs \<Rightarrow> string \<Rightarrow> string + string"
  writeFileSync :: "'fs \<Rightarrow> string \<Rightarrow> string \<Rightarrow> (string + unit) \<times> 'fs"
  mkdirSync :: "'fs \<Rightarrow> string \<Rightarrow> (string + unit) \<times> 'fs"
  JSON_parse :: "string \<Rightarrow> string + TestJson"
  createPatch :: "string \<Rightarrow> string \<Rightarrow> string \<Rightarrow> string"
  checkSideEffects :: "CheckSideEffectsOptions \<Rightarrow> 'fs \<Rightarrow> (string + string) \<times> 'fs"

definition emit :: "event \<Rightarrow> 'fs world \<Rightarrow> 'fs world" where
  "emit e w = w\<lparr>trace := trace w @ [e]\<rparr>"

definition console_log :: "string \<Rightarrow> 'fs world \<Rightarrow> 'fs world" where
  "console_log s w = emit (ConsoleLog s) w"

text \<open>A call of a state-changing collaborator: the call is traced, then its effect applied.\<close>

definition call_mkdirSync :: "'fs lib \<Rightarrow> string \<Rightarrow> 'fs world \<Rightarrow> unit completion \<times> 'fs world" where
  "call_mkdirSync L path w =
     (case mkdirSync L (files w) path of
        (Inl e, fs) \<Rightarrow> (Throw (External e), (emit (MkdirSync path) w)\<lparr>files := fs\<rparr>)
      | (Inr u, fs) \<Rightarrow> (Normal (), (emit (MkdirSync path) w)\<lparr>files := fs\<rparr>))"

definition call_writeFileSync ::
  "'fs lib \<Rightarrow> string \<Rightarrow> string \<Rightarrow> 'fs world \<Rightarrow> unit completion \<times> 'fs world" where
  "call_writeFileSync L path data w =
     (case writeFileSync L (files w) path data of
        (Inl e, fs) \<Rightarrow> (Throw (External e), (emit (WriteFileSync path data) w)\<lparr>files := fs\<rparr>)
      | (Inr u, fs) \<Rightarrow> (Normal (), (emit (WriteFileSync path data) w)\<lparr>files := fs\<rparr>))"

definition call_checkSideEffects ::
  "'fs lib \<Rightarrow> CheckSideEffectsOptions \<Rightarrow> 'fs world \<Rightarrow> string completion \<times> 'fs world" where
  "call_checkSideEffects L opts w =
     (case checkSideEffects L opts (files w) of
        (Inl e, fs) \<Rightarrow> (Throw (External e), (emit (CheckSideEffects opts) w)\<lparr>files := fs\<rparr>)
      | (Inr result, fs) \<Rightarrow> (Normal result, (emit (CheckSideEffects opts) w)\<lparr>files := fs\<rparr>))"

subsection \<open>String helpers of the platform\<close>

text \<open>\<^verbatim>\<open>Array.prototype.join\<close> on an array of strings.\<close>

fun join :: "string \<Rightarrow> string list \<Rightarrow> string" where
  "join sep [] = []"
| "join sep [x] = x"
| "join sep (x # y # ys) = x @ sep @ join sep (y # ys)"

text \<open>\<^verbatim>\<open>String.prototype.endsWith\<close> with one argument.\<close>

definition endsWith :: "string \<Rightarrow> string \<Rightarrow> bool" where
  "endsWith str s = (take (length s) (rev str) = rev s)"

text \<open>The decimal rendering of an array length inside a template literal.\<close>

fun string_of_nat :: "nat \<Rightarrow> string" where
  "string_of_nat n =
     (if n < 10 then [''0123456789'' ! n]
      else string_of_nat (n div 10) @ [''0123456789'' ! (n mod 10)])"

declare string_of_nat.simps [simp del]

subsection \<open>\<^verbatim>\<open>_recursiveMkDir\<close> (lines 220--225)\<close>

text \<open>
  The recursion follows \<^verbatim>\<open>dirname\<close> upwards and need not end, so the function is partial: \<open>None\<close>
  is a call that does not return.
\<close>

partial_function (option) recursiveMkDir ::
  "'fs lib \<Rightarrow> string \<Rightarrow> 'fs world \<Rightarrow> (unit completion \<times> 'fs world) option" where
  "recursiveMkDir L path w =
     (if \<not> existsSync L (files w) path then
        Option.bind (recursiveMkDir L (dirname L path) w)
          (\<lambda>(r, w1). case r of
                Throw e \<Rightarrow> Some (Throw e, w1)
              | Normal u \<Rightarrow> Some (call_mkdirSync L path w1))
      else Some (Normal (), w))"

declare recursiveMkDir.simps [code]

subsection \<open>\<^verbatim>\<open>isNodeBinary\<close> (lines 190--193) and \<^verbatim>\<open>showHelp\<close> (lines 195--218)\<close>

definition isNodeBinary :: "string \<Rightarrow> bool" where
  "isNodeBinary str = (endsWith str ''node'' \<or> endsWith str ''node.exe'')"

definition helpText :: string where
  "helpText =
     ''\<newline>check-side-effects [ES modules to check] [--option-name]\<newline>'' @
     ''\<newline>Checks side effects from importing given ES modules.\<newline>'' @
     ''\<newline>Options:\<newline>'' @
     ''    --help                    Show this message.\<newline>'' @
     ''    --cwd                     Override working directory to run the process in.\<newline>'' @
     ''    --output                  Output the bundle to this path. Useful to trace the sourcemaps.\<newline>'' @
     ''    --pure-getters            Assume there are no side effects from getters. [Default: false]\<newline>'' @
     ''    --resolve-externals       Resolve external dependencies. [Default: false]\<newline>'' @
     ''    --print-dependencies      Print all the module dependencies. [Default: false]\<newline>'' @
     ''    --use-build-optimizer     Run Build Optimizer over all modules. [Default: true]\<newline>'' @
     ''    --use-minifier'' @ [CHR 0x09] @
       ''          Run minifier over the final bundle to remove comments. [Default: true]\<newline>'' @
     ''    --warnings                Show all warnings. [Default: false]\<newline>'' @
     ''    --test                    Read a series of tests from a JSON file.\<newline>'' @
     ''    --update                  Update the test results. [Default: false]\<newline>'' @
     ''\<newline>Example:\<newline>'' @
     ''    check-side-effects ./path/to/library/module.js\<newline>''"

definition showHelp :: "'fs world \<Rightarrow> 'fs world" where
  "showHelp w = console_log helpText w"

subsection \<open>Suite mode (lines 91--161)\<close>

text \<open>
  The options of one test (lines 112--116): the resolved modules and the working directory,
  overridden by every field the test's own \<^verbatim>\<open>options\<close> defines.
\<close>

definition testOptions ::
  "ParsedCliOptions \<Rightarrow> string list \<Rightarrow> Test \<Rightarrow> CheckSideEffectsOptions" where
  "testOptions opts modules t =
     (case Test.options t of
        None \<Rightarrow>
          \<lparr> CheckSideEffectsOptions.esModules = modules,
            cwd = ParsedCliOptions.cwd opts,
            output' = None,
            propertyReadSideEffects = None,
            resolveExternals = None,
            printDependencies = None,
            useBuildOptimizer = None,
            useMinifier = None,
            warnings = None \<rparr>
      | Some own \<Rightarrow>
          \<lparr> CheckSideEffectsOptions.esModules = modules,
            cwd = (case CheckerCLIOptions.cwd own of
                     None \<Rightarrow> ParsedCliOptions.cwd opts
                   | Some c \<Rightarrow> c),
            output' = CheckerCLIOptions.output' own,
            propertyReadSideEffects = Some (CheckerCLIOptions.propertyReadSideEffects own),
            resolveExternals = Some (CheckerCLIOptions.resolveExternals own),
            printDependencies = Some (CheckerCLIOptions.printDependencies own),
            useBuildOptimizer = Some (CheckerCLIOptions.useBuildOptimizer own),
            useMinifier = Some (CheckerCLIOptions.useMinifier own),
            warnings = Some (CheckerCLIOptions.warnings own) \<rparr>)"

text \<open>Line 104: a single string is a one-element array.\<close>

definition unresolvedEsModules :: "Test \<Rightarrow> string list" where
  "unresolvedEsModules t =
     (case Test.esModules t of StringArray ms \<Rightarrow> ms | OneString m \<Rightarrow> [m])"

text \<open>Lines 121--129: the expected output, empty when the snapshot file does not exist.\<close>

definition loadExpectedOutput :: "'fs lib \<Rightarrow> 'fs \<Rightarrow> string \<Rightarrow> string + string" where
  "loadExpectedOutput L fs expectedOutputPath =
     (if existsSync L fs expectedOutputPath then readFileSync L fs expectedOutputPath
      else Inr [])"

text \<open>Lines 135--138: the snapshot is rewritten in update mode.\<close>

definition updateSnapshot ::
  "'fs lib \<Rightarrow> string \<Rightarrow> string \<Rightarrow> 'fs world \<Rightarrow> (unit completion \<times> 'fs world) option" where
  "updateSnapshot L expectedOutputPath result w =
     Option.bind (recursiveMkDir L (dirname L expectedOutputPath) w)
       (\<lambda>(r, w1). case r of
             Throw e \<Rightarrow> Some (Throw e, w1)
           | Normal u \<Rightarrow> Some (call_writeFileSync L expectedOutputPath result w1))"

text \<open>
  The body of the loop (lines 104--139) for one test, from the failures collected so far to
  the failures collected after it.
\<close>

definition runTest ::
  "'fs lib \<Rightarrow> ParsedCliOptions \<Rightarrow> string \<Rightarrow> Test \<Rightarrow> FailedExpectation list \<Rightarrow> 'fs world \<Rightarrow>
     (FailedExpectation list completion \<times> 'fs world) option" where
  "runTest L opts testFileDir t failedExpectations w =
     (let esModules = map (\<lambda>esm. resolve L testFileDir esm) (unresolvedEsModules t);
          modulesDescription = join '' '' (unresolvedEsModules t);
          w1 = console_log (''Testing '' @ modulesDescription) w;
          checkSideEffectsOptions = testOptions opts esModules t
      in case call_checkSideEffects L checkSideEffectsOptions w1 of
           (Throw e, w2) \<Rightarrow> Some (Throw e, w2)
         | (Normal result, w2) \<Rightarrow>
             (let expectedOutputPath = resolve L testFileDir (expectedOutput t)
              in case loadExpectedOutput L (files w2) expectedOutputPath of
                   Inl e \<Rightarrow> Some (Throw (External e), w2)
                 | Inr expected \<Rightarrow>
                     if result \<noteq> expected then
                       (let failedExpectations' = failedExpectations @
                              [\<lparr> testDescription = modulesDescription,
                                 diff = createPatch L expectedOutputPath expected result \<rparr>]
                        in if update opts then
                             Option.bind (updateSnapshot L expectedOutputPath result w2)
                               (\<lambda>(r, w3). case r of
                                     Throw e \<Rightarrow> Some (Throw e, w3)
                                   | Normal u \<Rightarrow> Some (Normal failedExpectations', w3))
                           else Some (Normal failedExpectations', w2))
                     else Some (Normal failedExpectations, w2)))"

text \<open>The loop of line 103 over the tests, in the order of the descriptor.\<close>

fun runTests ::
  "'fs lib \<Rightarrow> ParsedCliOptions \<Rightarrow> string \<Rightarrow> Test list \<Rightarrow> FailedExpectation list \<Rightarrow> 'fs world \<Rightarrow>
     (FailedExpectation list completion \<times> 'fs world) option" where
  "runTests L opts testFileDir [] failedExpectations w = Some (Normal failedExpectations, w)"
| "runTests L opts testFileDir (t # rest) failedExpectations w =
     Option.bind (runTest L opts testFileDir t failedExpectations w)
       (\<lambda>(r, w1). case r of
             Throw e \<Rightarrow> Some (Throw e, w1)
           | Normal failedExpectations' \<Rightarrow>
               runTests L opts testFileDir rest failedExpectations' w1)"

text \<open>
  Lines 93--100: the descriptor is located, announced, read and parsed; the result is the
  directory of the descriptor and its tests.
\<close>

definition loadTests ::
  "'fs lib \<Rightarrow> ParsedCliOptions \<Rightarrow> string \<Rightarrow> 'fs world \<Rightarrow> (string \<times> Test list) completion \<times> 'fs world"
  where
  "loadTests L opts testArg w =
     (let testFilePath = resolve L (ParsedCliOptions.cwd opts) testArg
      in if \<not> existsSync L (files w) testFilePath then
           (Throw (Thrown (''Could not find the test file: '' @ testFilePath @ ''.'')), w)
         else
           (let w1 = console_log (''Loading tests from '' @ testFilePath @ ''\<newline>'') w
            in case readFileSync L (files w1) testFilePath of
                 Inl e \<Rightarrow> (Throw (External e), w1)
               | Inr content \<Rightarrow>
                   (case JSON_parse L content of
                      Inl e \<Rightarrow> (Throw (External e), w1)
                    | Inr testJson \<Rightarrow> (Normal (dirname L testFilePath, tests testJson), w1))))"

text \<open>Lines 142--161: the report, and the empty string thrown when tests failed.\<close>

definition snapshotChanged :: "FailedExpectation \<Rightarrow> string" where
  "snapshotChanged s =
     ''Snapshot for '' @ testDescription s @ '' changed:\<newline>\<newline>'' @ diff s @ ''\<newline>''"

definition reportResults ::
  "ParsedCliOptions \<Rightarrow> MainOptions \<Rightarrow> FailedExpectation list \<Rightarrow> 'fs world \<Rightarrow>
     returned completion \<times> 'fs world" where
  "reportResults opts rawOpts failedExpectations w =
     (let w1 = console_log [] w
      in if length failedExpectations > 0 then
           (let w2 = console_log ''The following snapshots have changed:\<newline>\<newline>'' w1;
                w3 = console_log (join ''\<newline>'' (map snapshotChanged failedExpectations)) w2
            in if update opts then
                 (Normal Undefined,
                  console_log (string_of_nat (length failedExpectations) @
                                 '' test expectations updated.\<newline>'') w3)
               else
                 (let w4 = console_log (string_of_nat (length failedExpectations) @
                                          '' tests failed, see above for diffs.'') w3;
                      w5 = console_log
                             ''To update the expectations, run this command again with the --update flag:''
                             w4;
                      w6 = console_log [] w5;
                      w7 = console_log (''  '' @ join '' '' (args rawOpts) @ '' --update'') w6
                  in (Throw (Thrown []), w7)))
         else (Normal Undefined, console_log ''All tests passed.'' w1))"

definition runSuite ::
  "'fs lib \<Rightarrow> ParsedCliOptions \<Rightarrow> MainOptions \<Rightarrow> string \<Rightarrow> 'fs world \<Rightarrow>
     (returned completion \<times> 'fs world) option" where
  "runSuite L opts rawOpts testArg w =
     (case loadTests L opts testArg w of
        (Throw e, w1) \<Rightarrow> Some (Throw e, w1)
      | (Normal (testFileDir, ts), w1) \<Rightarrow>
          Option.bind (runTests L opts testFileDir ts [] w1)
            (\<lambda>(r, w2). case r of
                  Throw e \<Rightarrow> Some (Throw e, w2)
                | Normal failedExpectations \<Rightarrow>
                    Some (reportResults opts rawOpts failedExpectations w2)))"

subsection \<open>Single-run mode (lines 162--187)\<close>

text \<open>
  Line 166. \<^verbatim>\<open>options._[0]\<close> is \<^verbatim>\<open>undefined\<close> when there is no positional argument, and
  \<^verbatim>\<open>isNodeBinary\<close> then raises a \<^verbatim>\<open>TypeError\<close>; \<^verbatim>\<open>slice\<close> past the end is the empty array.
\<close>

definition singleRunModules :: "string list \<Rightarrow> string list completion" where
  "singleRunModules positional =
     (case positional of
        [] \<Rightarrow> Throw TypeError
      | str # _ \<Rightarrow> Normal (if isNodeBinary str then drop 2 positional else drop 1 positional))"

definition singleRunOptions :: "ParsedCliOptions \<Rightarrow> string list \<Rightarrow> CheckSideEffectsOptions" where
  "singleRunOptions opts modules =
     \<lparr> CheckSideEffectsOptions.esModules = modules,
       cwd = ParsedCliOptions.cwd opts,
       output' = ParsedCliOptions.output' opts,
       propertyReadSideEffects = Some (ParsedCliOptions.propertyReadSideEffects opts),
       resolveExternals = Some (ParsedCliOptions.resolveExternals opts),
       printDependencies = Some (ParsedCliOptions.printDependencies opts),
       useBuildOptimizer = Some (ParsedCliOptions.useBuildOptimizer opts),
       useMinifier = Some (ParsedCliOptions.useMinifier opts),
       warnings = Some (ParsedCliOptions.warnings opts) \<rparr>"

definition singleRun ::
  "'fs lib \<Rightarrow> ParsedCliOptions \<Rightarrow> 'fs world \<Rightarrow> returned completion \<times> 'fs world" where
  "singleRun L opts w =
     (case singleRunModules (positionals opts) of
        Throw e \<Rightarrow> (Throw e, w)
      | Normal modules \<Rightarrow>
          if length modules = 0 then
            (Throw (Thrown
               ''You must provide at least one ES module. Use --help for usage information.''), w)
          else
            (case call_checkSideEffects L (singleRunOptions opts modules) w of
               (Throw e, w1) \<Rightarrow> (Throw e, w1)
             | (Normal result, w1) \<Rightarrow> (Normal (CheckerResult result), w1)))"

subsection \<open>\<^verbatim>\<open>main\<close> (lines 51--188)\<close>

text \<open>
  \<^verbatim>\<open>if (options.test)\<close> is the truthiness of an optional string: an absent and an empty
  \<^verbatim>\<open>--test\<close> both select single-run mode.
\<close>

definition main ::
  "'fs lib \<Rightarrow> MainOptions \<Rightarrow> 'fs world \<Rightarrow> (returned completion \<times> 'fs world) option" where
  "main L rawOpts w =
     (let opts = minimist L (args rawOpts)
      in if help' opts then Some (Normal Undefined, showHelp w)
         else
           (case test opts of
              None \<Rightarrow> Some (singleRun L opts w)
            | Some testArg \<Rightarrow>
                if testArg \<noteq> [] then runSuite L opts rawOpts testArg w
                else Some (singleRun L opts w)))"

section \<open>Observing a run\<close>

text \<open>
  The vocabulary of the theorems: the kinds of events in a trace, the progress line and the
  checker invocation that belong to one test, and the path of its snapshot.
\<close>

definition is_mkdir :: "event \<Rightarrow> bool" where
  "is_mkdir e = (case e of MkdirSync p \<Rightarrow> True | _ \<Rightarrow> False)"

definition is_write :: "event \<Rightarrow> bool" where
  "is_write e = (case e of WriteFileSync p s \<Rightarrow> True | _ \<Rightarrow> False)"

definition is_invoke :: "event \<Rightarrow> bool" where
  "is_invoke e = (case e of CheckSideEffects opts \<Rightarrow> True | _ \<Rightarrow> False)"

definition is_progress :: "event \<Rightarrow> bool" where
  "is_progress e = (case e of ConsoleLog s \<Rightarrow> take 8 s = ''Testing '' | _ \<Rightarrow> False)"

definition progressLine :: "Test \<Rightarrow> event" where
  "progressLine t = ConsoleLog (''Testing '' @ join '' '' (unresolvedEsModules t))"

definition invocation :: "'fs lib \<Rightarrow> ParsedCliOptions \<Rightarrow> string \<Rightarrow> Test \<Rightarrow> event" where
  "invocation L opts testFileDir t =
     CheckSideEffects
       (testOptions opts (map (resolve L testFileDir) (unresolvedEsModules t)) t)"

definition snapshotPath :: "'fs lib \<Rightarrow> string \<Rightarrow> Test \<Rightarrow> string" where
  "snapshotPath L testFileDir t = resolve L testFileDir (expectedOutput t)"

text \<open>The world in which a test is compared: after its progress line and its invocation.\<close>

definition invoked :: "'fs lib \<Rightarrow> ParsedCliOptions \<Rightarrow> string \<Rightarrow> Test \<Rightarrow> 'fs world \<Rightarrow> 'fs world" where
  "invoked L opts testFileDir t w =
     \<lparr> files = snd (checkSideEffects L
                       (testOptions opts (map (resolve L testFileDir) (unresolvedEsModules t)) t)
                       (files w)),
       trace = trace w @ [progressLine t, invocation L opts testFileDir t] \<rparr>"

text \<open>What the checker answered for a test, and the failure recorded when it differs.\<close>

definition answer :: "'fs lib \<Rightarrow> ParsedCliOptions \<Rightarrow> string \<Rightarrow> Test \<Rightarrow> 'fs world \<Rightarrow> string + string" where
  "answer L opts testFileDir t w =
     fst (checkSideEffects L
            (testOptions opts (map (resolve L testFileDir) (unresolvedEsModules t)) t)
            (files w))"

definition failure :: "'fs lib \<Rightarrow> string \<Rightarrow> Test \<Rightarrow> string \<Rightarrow> string \<Rightarrow> FailedExpectation" where
  "failure L testFileDir t expected result =
     \<lparr> testDescription = join '' '' (unresolvedEsModules t),
       diff = createPatch L (snapshotPath L testFileDir t) expected result \<rparr>"

text \<open>A test mismatches when the checker answered and the answer is not the expected text.\<close>

definition mismatch :: "'fs lib \<Rightarrow> ParsedCliOptions \<Rightarrow> string \<Rightarrow> Test \<Rightarrow> 'fs world \<Rightarrow> bool" where
  "mismatch L opts testFileDir t w =
     (case answer L opts testFileDir t w of
        Inl e \<Rightarrow> False
      | Inr result \<Rightarrow>
          (case loadExpectedOutput L (files (invoked L opts testFileDir t w))
                  (snapshotPath L testFileDir t) of
             Inl e \<Rightarrow> False
           | Inr expected \<Rightarrow> result \<noteq> expected))"

text \<open>
  Collaborators that do not fail: the checker answers every invocation; every path that exists
  can be read; and, for update mode, creating a directory and writing a file succeed and every
  chain of parent directories reaches a path that exists.
\<close>

abbreviation checkerAnswers :: "'fs lib \<Rightarrow> bool" where
  "checkerAnswers L \<equiv> \<forall>sent fs. \<exists>res. fst (checkSideEffects L sent fs) = Inr res"

abbreviation readsSucceed :: "'fs lib \<Rightarrow> bool" where
  "readsSucceed L \<equiv> \<forall>fs p. existsSync L fs p \<longrightarrow> (\<exists>s. readFileSync L fs p = Inr s)"

text \<open>The error \<open>m\<close> is one that some call of a collaborator raises.\<close>

abbreviation raisedBy :: "'fs lib \<Rightarrow> string \<Rightarrow> bool" where
  "raisedBy L m \<equiv>
     (\<exists>sent fs. fst (checkSideEffects L sent fs) = Inl m) \<or>
     (\<exists>fs p. readFileSync L fs p = Inl m) \<or>
     (\<exists>fs p. fst (mkdirSync L fs p) = Inl m) \<or>
     (\<exists>fs p s. fst (writeFileSync L fs p s) = Inl m)"

abbreviation updatesSucceed :: "'fs lib \<Rightarrow> bool" where
  "updatesSucceed L \<equiv>
     (\<forall>fs p. fst (mkdirSync L fs p) = Inr ()) \<and>
     (\<forall>fs p s. fst (writeFileSync L fs p s) = Inr ()) \<and>
     (\<forall>fs p. \<exists>n. existsSync L fs ((dirname L ^^ n) p))"

section \<open>A sample environment\<close>

text \<open>
  One concrete choice of the collaborators, small enough to run the driver inside the logic:
  an in-memory file system of absolute paths, a path resolution that keeps an absolute second
  argument and otherwise appends it to the first, a parser that knows \<^verbatim>\<open>--help\<close>, \<^verbatim>\<open>--update\<close>
  and \<^verbatim>\<open>--test\<close> and takes every other token as a positional argument, and a checker that
  answers with a line naming its modules. The theorems below do not depend on it; it only
  shows that their assumptions are met by real runs.
\<close>

datatype node = File string | Directory

type_synonym sample_fs = "(string \<times> node) list"

definition sample_dirname :: "string \<Rightarrow> string" where
  "sample_dirname p =
     (let d = rev (drop 1 (dropWhile (\<lambda>c. c \<noteq> CHR ''/'') (rev p)))
      in if d = [] then ''/'' else d)"

definition sample_resolve :: "string \<Rightarrow> string \<Rightarrow> string" where
  "sample_resolve base p = (if take 1 p = ''/'' then p else base @ ''/'' @ p)"

definition sample_defaults :: ParsedCliOptions where
  "sample_defaults =
     \<lparr> ParsedCliOptions.cwd = ''/work'',
       output' = None,
       propertyReadSideEffects = True,
       resolveExternals = False,
       printDependencies = False,
       useBuildOptimizer = True,
       useMinifier = True,
       warnings = False,
       test = None,
       update = False,
       help' = False,
       positionals = [] \<rparr>"

fun sample_parse :: "string list \<Rightarrow> ParsedCliOptions \<Rightarrow> ParsedCliOptions" where
  "sample_parse [] acc = acc"
| "sample_parse [a] acc =
     (if a = ''--help'' then acc\<lparr>help' := True\<rparr>
      else if a = ''--update'' then acc\<lparr>update := True\<rparr>
      else if a = ''--test'' then acc\<lparr>test := Some []\<rparr>
      else acc\<lparr>positionals := positionals acc @ [a]\<rparr>)"
| "sample_parse (a # b # rest) acc =
     (if a = ''--help'' then sample_parse (b # rest) (acc\<lparr>help' := True\<rparr>)
      else if a = ''--update'' then sample_parse (b # rest) (acc\<lparr>update := True\<rparr>)
      else if a = ''--test'' then sample_parse rest (acc\<lparr>test := Some b\<rparr>)
      else sample_parse (b # rest) (acc\<lparr>positionals := positionals acc @ [a]\<rparr>))"

text \<open>The root directory always exists; every other path exists when it has an entry.\<close>

definition sample_node :: "sample_fs \<Rightarrow> string \<Rightarrow> node option" where
  "sample_node fs p = (if p = ''/'' then Some Directory else map_of fs p)"

definition sample_exists :: "sample_fs \<Rightarrow> string \<Rightarrow> bool" where
  "sample_exists fs p = (sample_node fs p \<noteq> None)"

definition sample_read :: "sample_fs \<Rightarrow> string \<Rightarrow> string + string" where
  "sample_read fs p =
     (case sample_node fs p of
        None \<Rightarrow> Inl ''ENOENT''
      | Some Directory \<Rightarrow> Inl ''EISDIR''
      | Some (File s) \<Rightarrow> Inr s)"

definition sample_write :: "sample_fs \<Rightarrow> string \<Rightarrow> string \<Rightarrow> (string + unit) \<times> sample_fs" where
  "sample_write fs p s =
     (if sample_node fs p = Some Directory then (Inl ''EISDIR'', fs)
      else if sample_node fs (sample_dirname p) \<noteq> Some Directory then (Inl ''ENOENT'', fs)
      else (Inr (), (p, File s) # fs))"

definition sample_mkdir :: "sample_fs \<Rightarrow> string \<Rightarrow> (string + unit) \<times> sample_fs" where
  "sample_mkdir fs p =
     (if sample_node fs p \<noteq> None then (Inl ''EEXIST'', fs)
      else if sample_node fs (sample_dirname p) \<noteq> Some Directory then (Inl ''ENOENT'', fs)
      else (Inr (), (p, Directory) # fs))"

definition sample_patch :: "string \<Rightarrow> string \<Rightarrow> string \<Rightarrow> string" where
  "sample_patch name old new = ''--- '' @ name @ ''\<newline>-'' @ old @ ''\<newline>+'' @ new"

definition sample_checker ::
  "CheckSideEffectsOptions \<Rightarrow> sample_fs \<Rightarrow> (string + string) \<times> sample_fs" where
  "sample_checker opts fs = (Inr (''checked '' @ join '' '' (esModules opts)), fs)"

definition sample_test_a :: Test where
  "sample_test_a =
     \<lparr> Test.esModules = OneString ''a.js'', options = None, expectedOutput = ''out/a.snap'' \<rparr>"

definition sample_test_bc :: Test where
  "sample_test_bc =
     \<lparr> Test.esModules = StringArray [''b.js'', ''c.js''], options = None,
       expectedOutput = ''b.snap'' \<rparr>"

definition sample_tests :: "Test list" where
  "sample_tests = [sample_test_a, sample_test_bc]"

definition sample_descriptor :: string where
  "sample_descriptor = ''tests: a.js -> out/a.snap; b.js c.js -> b.snap''"

definition sample_parse_json :: "string \<Rightarrow> string + TestJson" where
  "sample_parse_json s =
     (if s = sample_descriptor then Inr \<lparr> tests = sample_tests \<rparr> else Inl ''SyntaxError'')"

definition sample_lib :: "sample_fs lib" where
  "sample_lib =
     \<lparr> minimist = (\<lambda>argv. sample_parse argv sample_defaults),
       resolve = sample_resolve,
       dirname = sample_dirname,
       existsSync = sample_exists,
       readFileSync = sample_read,
       writeFileSync = sample_write,
       mkdirSync = sample_mkdir,
       JSON_parse = sample_parse_json,
       createPatch = sample_patch,
       checkSideEffects = sample_checker \<rparr>"

text \<open>
  The descriptor lies in \<^verbatim>\<open>/suite\<close>, not in the working directory \<^verbatim>\<open>/work\<close>. The snapshot of the
  second test is up to date; that of the first, and its directory, do not exist.
\<close>

definition sample_files :: sample_fs where
  "sample_files =
     [(''/work'', Directory),
      (''/suite'', Directory),
      (''/suite/tests.json'', File sample_descriptor),
      (''/suite/b.snap'', File ''checked /suite/b.js /suite/c.js'')]"

definition sample_world :: "sample_fs world" where
  "sample_world = \<lparr> files = sample_files, trace = [] \<rparr>"

text \<open>
  A second file system in which \<^verbatim>\<open>/suite/out\<close> is a file, so that the snapshot of the first test
  cannot be written; and the argument vectors of the sample runs.
\<close>

definition sample_blocked :: "sample_fs world" where
  "sample_blocked = \<lparr> files = (''/suite/out'', File ''x'') # sample_files, trace = [] \<rparr>"

definition sample_args :: "string list" where
  "sample_args = [''node'', ''cli.js'', ''--test'', ''/suite/tests.json'']"

definition sample_args_update :: "string list" where
  "sample_args_update = [''node'', ''cli.js'', ''--test'', ''/suite/tests.json'', ''--update'']"

text \<open>What the sample runs go through: the parsed options, and the worlds and failures on the way.\<close>

definition sample_opts :: ParsedCliOptions where
  "sample_opts =
     sample_defaults\<lparr>test := Some ''/suite/tests.json'', positionals := [''node'', ''cli.js'']\<rparr>"

definition sample_opts_update :: ParsedCliOptions where
  "sample_opts_update = sample_opts\<lparr>update := True\<rparr>"

definition sample_loading :: event where
  "sample_loading = ConsoleLog ''Loading tests from /suite/tests.json\<newline>''"

definition sample_sent :: "string list \<Rightarrow> event" where
  "sample_sent modules =
     CheckSideEffects
       \<lparr> CheckSideEffectsOptions.esModules = modules,
         cwd = ''/work'',
         output' = None,
         propertyReadSideEffects = None,
         resolveExternals = None,
         printDependencies = None,
         useBuildOptimizer = None,
         useMinifier = None,
         warnings = None \<rparr>"

definition sample_blocked_failed :: "sample_fs world" where
  "sample_blocked_failed =
     \<lparr> files = (''/suite/out'', File ''x'') # sample_files,
       trace =
         [sample_loading, ConsoleLog ''Testing a.js'', sample_sent [''/suite/a.js''],
          WriteFileSync ''/suite/out/a.snap'' ''checked /suite/a.js''] \<rparr>"

definition sample_loaded :: "sample_fs world" where
  "sample_loaded = \<lparr> files = sample_files, trace = [sample_loading] \<rparr>"

definition sample_after_a :: "sample_fs world" where
  "sample_after_a =
     \<lparr> files = sample_files,
       trace = [sample_loading, ConsoleLog ''Testing a.js'', sample_sent [''/suite/a.js'']] \<rparr>"

definition sample_ran :: "sample_fs world" where
  "sample_ran =
     \<lparr> files = sample_files,
       trace =
         [sample_loading,
          ConsoleLog ''Testing a.js'', sample_sent [''/suite/a.js''],
          ConsoleLog ''Testing b.js c.js'', sample_sent [''/suite/b.js'', ''/suite/c.js'']] \<rparr>"

definition sample_updated_a :: "sample_fs world" where
  "sample_updated_a =
     \<lparr> files =
         (''/suite/out/a.snap'', File ''checked /suite/a.js'') #
         (''/suite/out'', Directory) # sample_files,
       trace =
         [sample_loading,
          ConsoleLog ''Testing a.js'', sample_sent [''/suite/a.js''],
          MkdirSync ''/suite/out'',
          WriteFileSync ''/suite/out/a.snap'' ''checked /suite/a.js''] \<rparr>"

definition sample_ran_update :: "sample_fs world" where
  "sample_ran_update =
     \<lparr> files =
         (''/suite/out/a.snap'', File ''checked /suite/a.js'') #
         (''/suite/out'', Directory) # sample_files,
       trace =
         [sample_loading,
          ConsoleLog ''Testing a.js'', sample_sent [''/suite/a.js''],
          MkdirSync ''/suite/out'',
          WriteFileSync ''/suite/out/a.snap'' ''checked /suite/a.js'',
          ConsoleLog ''Testing b.js c.js'', sample_sent [''/suite/b.js'', ''/suite/c.js'']] \<rparr>"

definition sample_failures :: "FailedExpectation list" where
  "sample_failures =
     [\<lparr> testDescription = ''a.js'',
        diff = ''--- /suite/out/a.snap\<newline>-\<newline>+checked /suite/a.js'' \<rparr>]"

definition sample_changed :: "event list" where
  "sample_changed =
     [ConsoleLog [],
      ConsoleLog ''The following snapshots have changed:\<newline>\<newline>'',
      ConsoleLog (''Snapshot for a.js changed:\<newline>\<newline>'' @
                  ''--- /suite/out/a.snap\<newline>-\<newline>+checked /suite/a.js\<newline>'')]"

definition sample_failed_report :: "event list" where
  "sample_failed_report =
     sample_changed @
     [ConsoleLog ''1 tests failed, see above for diffs.'',
      ConsoleLog ''To update the expectations, run this command again with the --update flag:'',
      ConsoleLog [],
      ConsoleLog ''  node cli.js --test /suite/tests.json --update'']"

definition sample_updated_report :: "event list" where
  "sample_updated_report =
     sample_changed @ [ConsoleLog ''1 test expectations updated.\<newline>'']"

text \<open>
  A second environment, in which no call of a collaborator fails: a flat store of texts under
  a root that always exists, where creating a directory records an empty entry. Its descriptor
  is the same; the snapshot of the first test does not exist and that of the second is stale,
  so both tests mismatch.
\<close>

type_synonym sample_store = "(string \<times> string) list"

definition sample_plain :: "sample_store lib" where
  "sample_plain =
     \<lparr> minimist = (\<lambda>argv. sample_parse argv sample_defaults),
       resolve = sample_resolve,
       dirname = sample_dirname,
       existsSync = (\<lambda>fs p. p = ''/'' \<or> map_of fs p \<noteq> None),
       readFileSync = (\<lambda>fs p. Inr (case map_of fs p of None \<Rightarrow> [] | Some s \<Rightarrow> s)),
       writeFileSync = (\<lambda>fs p s. (Inr (), (p, s) # fs)),
       mkdirSync = (\<lambda>fs p. (Inr (), (p, []) # fs)),
       JSON_parse = sample_parse_json,
       createPatch = sample_patch,
       checkSideEffects =
         (\<lambda>opts fs. (Inr (''checked '' @ join '' '' (CheckSideEffectsOptions.esModules opts)), fs)) \<rparr>"

definition sample_store_files :: sample_store where
  "sample_store_files =
     [(''/suite/tests.json'', sample_descriptor), (''/suite/b.snap'', ''stale'')]"

definition sample_store_world :: "sample_store world" where
  "sample_store_world = \<lparr> files = sample_store_files, trace = [] \<rparr>"

definition sample_store_loaded :: "sample_store world" where
  "sample_store_loaded = \<lparr> files = sample_store_files, trace = [sample_loading] \<rparr>"

definition sample_store_after_a :: "sample_store world" where
  "sample_store_after_a =
     \<lparr> files = sample_store_files,
       trace = [sample_loading, ConsoleLog ''Testing a.js'', sample_sent [''/suite/a.js'']] \<rparr>"

definition sample_store_after_bc :: "sample_store world" where
  "sample_store_after_bc =
     \<lparr> files = sample_store_files,
       trace =
         [sample_loading,
          ConsoleLog ''Testing a.js'', sample_sent [''/suite/a.js''],
          ConsoleLog ''Testing b.js c.js'', sample_sent [''/suite/b.js'', ''/suite/c.js'']] \<rparr>"

definition sample_store_updated :: "sample_store world" where
  "sample_store_updated =
     \<lparr> files =
         (''/suite/b.snap'', ''checked /suite/b.js /suite/c.js'') #
         (''/suite/out/a.snap'', ''checked /suite/a.js'') #
         (''/suite/out'', []) #
         (''/suite'', []) # sample_store_files,
       trace =
         [sample_loading,
          ConsoleLog ''Testing a.js'', sample_sent [''/suite/a.js''],
          MkdirSync ''/suite'',
          MkdirSync ''/suite/out'',
          WriteFileSync ''/suite/out/a.snap'' ''checked /suite/a.js'',
          ConsoleLog ''Testing b.js c.js'', sample_sent [''/suite/b.js'', ''/suite/c.js''],
          WriteFileSync ''/suite/b.snap'' ''checked /suite/b.js /suite/c.js''] \<rparr>"

definition sample_store_failures :: "FailedExpectation list" where
  "sample_store_failures =
     [\<lparr> testDescription = ''a.js'',
        diff = ''--- /suite/out/a.snap\<newline>-\<newline>+checked /suite/a.js'' \<rparr>,
      \<lparr> testDescription = ''b.js c.js'',
        diff = ''--- /suite/b.snap\<newline>-stale\<newline>+checked /suite/b.js /suite/c.js'' \<rparr>]"

section \<open>Basic facts about the effects\<close>

lemma files_emit [simp]: "files (emit e w) = files w"
  by (simp add: emit_def)

lemma trace_emit [simp]: "trace (emit e w) = trace w @ [e]"
  by (simp add: emit_def)

lemma files_console_log [simp]: "files (console_log s w) = files w"
  by (simp add: console_log_def)

lemma trace_console_log [simp]: "trace (console_log s w) = trace w @ [ConsoleLog s]"
  by (simp add: console_log_def)

lemma call_mkdirSync_trace:
  "call_mkdirSync L path w = (r, w') \<Longrightarrow> trace w' = trace w @ [MkdirSync path]"
  by (auto simp: call_mkdirSync_def split: prod.splits sum.splits)

lemma call_mkdirSync_Throw:
  "call_mkdirSync L path w = (Throw e, w') \<Longrightarrow> \<exists>m. e = External m"
  by (auto simp: call_mkdirSync_def split: prod.splits sum.splits)

lemma call_writeFileSync_trace:
  "call_writeFileSync L path s w = (r, w') \<Longrightarrow> trace w' = trace w @ [WriteFileSync path s]"
  by (auto simp: call_writeFileSync_def split: prod.splits sum.splits)

lemma call_writeFileSync_Throw:
  "call_writeFileSync L path s w = (Throw e, w') \<Longrightarrow> \<exists>m. e = External m"
  by (auto simp: call_writeFileSync_def split: prod.splits sum.splits)

lemma call_checkSideEffects_eq:
  "call_checkSideEffects L opts w =
     (case fst (checkSideEffects L opts (files w)) of
        Inl e \<Rightarrow> Throw (External e)
      | Inr result \<Rightarrow> Normal result,
      \<lparr> files = snd (checkSideEffects L opts (files w)),
        trace = trace w @ [CheckSideEffects opts] \<rparr>)"
  by (auto simp: call_checkSideEffects_def split: prod.splits sum.splits)

section \<open>Directory creation\<close>

lemma recursiveMkDir_existing:
  "existsSync L (files w) path \<Longrightarrow> recursiveMkDir L path w = Some (Normal (), w)"
  by (subst recursiveMkDir.simps) simp

lemma recursiveMkDir_returns:
  "existsSync L (files w) ((dirname L ^^ n) path) \<Longrightarrow> \<exists>r. recursiveMkDir L path w = Some r"
proof (induction n arbitrary: path)
  case 0
  then show ?case by (simp add: recursiveMkDir_existing)
next
  case (Suc n)
  show ?case
  proof (cases "existsSync L (files w) path")
    case True
    then show ?thesis by (simp add: recursiveMkDir_existing)
  next
    case False
    from Suc.prems have "existsSync L (files w) ((dirname L ^^ n) (dirname L path))"
      by (simp add: funpow_swap1)
    then obtain r where r: "recursiveMkDir L (dirname L path) w = Some r"
      using Suc.IH by blast
    show ?thesis
      by (subst recursiveMkDir.simps) (simp add: False r split: prod.split completion.split)
  qed
qed

lemma recursiveMkDir_effect_aux:
  assumes "recursiveMkDir L path w = Some y"
  shows "(\<exists>evs. trace (snd y) = trace w @ evs \<and> (\<forall>e \<in> set evs. is_mkdir e)) \<and>
         (\<forall>e. fst y = Throw e \<longrightarrow> (\<exists>m. e = External m))"
proof (rule recursiveMkDir.raw_induct
    [where P = "\<lambda>L path w y. (\<exists>evs. trace (snd y) = trace w @ evs \<and> (\<forall>e \<in> set evs. is_mkdir e)) \<and>
         (\<forall>e. fst y = Throw e \<longrightarrow> (\<exists>m. e = External m))",
      OF _ assms])
  fix rec :: "'a lib \<Rightarrow> string \<Rightarrow> 'a world \<Rightarrow> (unit completion \<times> 'a world) option"
  fix L path w y
  assume IH: "\<And>L path w y. rec L path w = Some y \<Longrightarrow>
     (\<exists>evs. trace (snd y) = trace w @ evs \<and> (\<forall>e \<in> set evs. is_mkdir e)) \<and>
         (\<forall>e. fst y = Throw e \<longrightarrow> (\<exists>m. e = External m))"
  assume body: "(if \<not> existsSync L (files w) path
      then Option.bind (rec L (dirname L path) w)
            (\<lambda>(r, w1).
                case r of Normal u \<Rightarrow> Some (call_mkdirSync L path w1)
                | Throw e \<Rightarrow> Some (Throw e, w1))
      else Some (Normal (), w)) = Some y"
  show "(\<exists>evs. trace (snd y) = trace w @ evs \<and> (\<forall>e \<in> set evs. is_mkdir e)) \<and>
         (\<forall>e. fst y = Throw e \<longrightarrow> (\<exists>m. e = External m))"
  proof (cases "existsSync L (files w) path")
    case True
    with body show ?thesis by auto
  next
    case False
    with body obtain r w1 where rec: "rec L (dirname L path) w = Some (r, w1)"
      and y: "(case r of Normal u \<Rightarrow> Some (call_mkdirSync L path w1)
               | Throw e \<Rightarrow> Some (Throw e, w1)) = Some y"
      by (auto simp: bind_eq_Some_conv)
    from IH[OF rec] obtain evs where evs: "trace w1 = trace w @ evs" "\<forall>e \<in> set evs. is_mkdir e"
      and thr: "\<forall>e. r = Throw e \<longrightarrow> (\<exists>m. e = External m)"
      by auto
    show ?thesis
    proof (cases r)
      case (Normal u)
      with y have c: "call_mkdirSync L path w1 = (fst y, snd y)" by simp
      then have "trace (snd y) = trace w1 @ [MkdirSync path]" by (rule call_mkdirSync_trace)
      with evs have "trace (snd y) = trace w @ (evs @ [MkdirSync path])"
        and "\<forall>e \<in> set (evs @ [MkdirSync path]). is_mkdir e"
        by (auto simp: is_mkdir_def)
      then have "\<exists>evs. trace (snd y) = trace w @ evs \<and> (\<forall>e \<in> set evs. is_mkdir e)"
        by blast
      moreover have "\<forall>e. fst y = Throw e \<longrightarrow> (\<exists>m. e = External m)"
        using c call_mkdirSync_Throw by metis
      ultimately show ?thesis by blast
    next
      case (Throw e)
      with y evs thr show ?thesis by auto
    qed
  qed
qed

lemma recursiveMkDir_effect:
  assumes "recursiveMkDir L path w = Some (r, w')"
  shows "\<exists>evs. trace w' = trace w @ evs \<and> (\<forall>e \<in> set evs. is_mkdir e)"
    and "r = Throw e \<Longrightarrow> \<exists>m. e = External m"
  using recursiveMkDir_effect_aux[OF assms] by auto

section \<open>One test\<close>

lemma updateSnapshot_effect:
  assumes "updateSnapshot L path result w = Some (r, w')"
  shows "\<exists>mk wr. trace w' = trace w @ mk @ wr \<and> (\<forall>e \<in> set mk. is_mkdir e) \<and>
           (wr = [] \<or> wr = [WriteFileSync path result]) \<and>
           (r = Normal () \<longrightarrow> wr = [WriteFileSync path result]) \<and>
           (\<forall>e. r = Throw e \<longrightarrow> (\<exists>m. e = External m))"
proof -
  from assms obtain r1 w1 where mk: "recursiveMkDir L (dirname L path) w = Some (r1, w1)"
    and rest: "(case r1 of Throw e \<Rightarrow> Some (Throw e, w1)
                | Normal u \<Rightarrow> Some (call_writeFileSync L path result w1)) = Some (r, w')"
    by (auto simp: updateSnapshot_def bind_eq_Some_conv)
  from recursiveMkDir_effect(1)[OF mk] obtain evs
    where evs: "trace w1 = trace w @ evs" "\<forall>e \<in> set evs. is_mkdir e" by blast
  show ?thesis
  proof (cases r1)
    case (Normal u)
    with rest have c: "call_writeFileSync L path result w1 = (r, w')" by simp
    from call_writeFileSync_trace[OF c] evs(1)
    have "trace w' = trace w @ evs @ [WriteFileSync path result]" by simp
    moreover have "\<forall>e. r = Throw e \<longrightarrow> (\<exists>m. e = External m)"
      using c call_writeFileSync_Throw by metis
    ultimately show ?thesis using evs(2) by blast
  next
    case (Throw e)
    with rest have "r = Throw e" "w' = w1" by auto
    moreover from recursiveMkDir_effect(2)[OF mk Throw] obtain m where "e = External m" ..
    ultimately have "trace w' = trace w @ evs @ []" "r \<noteq> Normal ()" "\<forall>e. r = Throw e \<longrightarrow> (\<exists>m. e = External m)"
      using evs(1) by auto
    then show ?thesis using evs(2) by blast
  qed
qed

text \<open>The loop body, read off after the checker has answered.\<close>

lemma runTest_unfold:
  "runTest L opts dir t fe w =
     (case answer L opts dir t w of
        Inl e \<Rightarrow> Some (Throw (External e), invoked L opts dir t w)
      | Inr result \<Rightarrow>
          (case loadExpectedOutput L (files (invoked L opts dir t w)) (snapshotPath L dir t) of
             Inl e \<Rightarrow> Some (Throw (External e), invoked L opts dir t w)
           | Inr expected \<Rightarrow>
               if result \<noteq> expected then
                 if update opts then
                   Option.bind (updateSnapshot L (snapshotPath L dir t) result (invoked L opts dir t w))
                     (\<lambda>(r, w3). case r of
                           Throw e \<Rightarrow> Some (Throw e, w3)
                         | Normal u \<Rightarrow> Some (Normal (fe @ [failure L dir t expected result]), w3))
                 else Some (Normal (fe @ [failure L dir t expected result]), invoked L opts dir t w)
               else Some (Normal fe, invoked L opts dir t w)))"
  unfolding invoked_def answer_def snapshotPath_def failure_def progressLine_def invocation_def
  by (simp add: runTest_def call_checkSideEffects_eq Let_def split: sum.split)

lemma bind_completion_Some:
  "Option.bind m (\<lambda>(r, w). case r of Throw e \<Rightarrow> Some (Throw e, w) | Normal x \<Rightarrow> k x w) = Some y \<longleftrightarrow>
     (\<exists>e w. m = Some (Throw e, w) \<and> y = (Throw e, w)) \<or>
     (\<exists>x w. m = Some (Normal x, w) \<and> k x w = Some y)"
proof (cases m)
  case None
  then show ?thesis by simp
next
  case (Some p)
  obtain r w where p: "p = (r, w)" by (cases p)
  show ?thesis using Some p by (cases r) auto
qed

lemma is_progress_progressLine [simp]: "is_progress (progressLine t)"
  by (simp add: is_progress_def progressLine_def)

lemma kinds_progressLine [simp]:
  "\<not> is_invoke (progressLine t)" "\<not> is_write (progressLine t)" "\<not> is_mkdir (progressLine t)"
  by (simp_all add: is_invoke_def is_write_def is_mkdir_def progressLine_def)

lemma kinds_invocation [simp]:
  "is_invoke (invocation L opts dir t)" "\<not> is_progress (invocation L opts dir t)"
  "\<not> is_write (invocation L opts dir t)" "\<not> is_mkdir (invocation L opts dir t)"
  by (simp_all add: is_invoke_def is_progress_def is_write_def is_mkdir_def invocation_def)

lemma kinds_WriteFileSync [simp]:
  "is_write (WriteFileSync p s)" "\<not> is_progress (WriteFileSync p s)"
  "\<not> is_invoke (WriteFileSync p s)" "\<not> is_mkdir (WriteFileSync p s)"
  by (simp_all add: is_invoke_def is_progress_def is_write_def is_mkdir_def)

lemma is_mkdir_other:
  "is_mkdir e \<Longrightarrow> \<not> is_progress e \<and> \<not> is_invoke e \<and> \<not> is_write e"
  by (cases e) (simp_all add: is_invoke_def is_progress_def is_write_def is_mkdir_def)

lemma filter_mkdirs [simp]:
  assumes "\<forall>e \<in> set mk. is_mkdir e"
  shows "filter is_progress mk = []" "filter is_invoke mk = []" "filter is_write mk = []"
    "filter (\<lambda>e. is_progress e \<or> is_invoke e) mk = []"
  using assms is_mkdir_other by (auto simp: filter_empty_conv)

lemma trace_invoked [simp]:
  "trace (invoked L opts dir t w) = trace w @ [progressLine t, invocation L opts dir t]"
  by (simp add: invoked_def)

text \<open>What one test adds to the trace, whatever its outcome.\<close>

lemma runTest_trace:
  assumes "runTest L opts dir t fe w = Some (r, w')"
  shows "\<exists>mk wr. trace w' = trace w @ [progressLine t, invocation L opts dir t] @ mk @ wr \<and>
           (\<forall>e \<in> set mk. is_mkdir e) \<and>
           (wr = [] \<or> (\<exists>result. wr = [WriteFileSync (snapshotPath L dir t) result])) \<and>
           (\<not> update opts \<longrightarrow> mk = [] \<and> wr = [])"
proof -
  let ?v = "invoked L opts dir t w"
  have plain: "w' = ?v \<Longrightarrow> ?thesis"
    by (rule exI[of _ "[]"], rule exI[of _ "[]"]) simp
  show ?thesis
  proof (cases "answer L opts dir t w")
    case (Inl e)
    with assms have "w' = ?v" by (simp add: runTest_unfold)
    then show ?thesis by (rule plain)
  next
    case (Inr result)
    note ans = this
    show ?thesis
    proof (cases "loadExpectedOutput L (files ?v) (snapshotPath L dir t)")
      case (Inl e)
      with assms ans have "w' = ?v" by (simp add: runTest_unfold)
      then show ?thesis by (rule plain)
    next
      case (Inr expected)
      show ?thesis
      proof (cases "result \<noteq> expected \<and> update opts")
        case False
        with assms ans Inr have "w' = ?v" by (auto simp: runTest_unfold split: if_splits)
        then show ?thesis by (rule plain)
      next
        case True
        with assms ans Inr obtain r3 where
          up: "updateSnapshot L (snapshotPath L dir t) result ?v = Some (r3, w')"
          by (auto simp: runTest_unfold bind_completion_Some)
        from updateSnapshot_effect[OF up] obtain mk wr where
          "trace w' = trace ?v @ mk @ wr" "\<forall>e \<in> set mk. is_mkdir e"
          "wr = [] \<or> wr = [WriteFileSync (snapshotPath L dir t) result]"
          by blast
        with True show ?thesis by auto
      qed
    qed
  qed
qed

lemma runTest_Throw:
  assumes "runTest L opts dir t fe w = Some (Throw e, w')"
  shows "\<exists>m. e = External m"
proof (cases "answer L opts dir t w")
  case (Inl m)
  with assms show ?thesis by (auto simp: runTest_unfold)
next
  case (Inr result)
  note ans = this
  show ?thesis
  proof (cases "loadExpectedOutput L (files (invoked L opts dir t w)) (snapshotPath L dir t)")
    case (Inl m)
    with assms ans show ?thesis by (auto simp: runTest_unfold)
  next
    case (Inr expected)
    show ?thesis
    proof (cases "result \<noteq> expected \<and> update opts")
      case False
      with assms ans Inr show ?thesis by (auto simp: runTest_unfold split: if_splits)
    next
      case True
      with assms ans Inr have
        "updateSnapshot L (snapshotPath L dir t) result (invoked L opts dir t w) = Some (Throw e, w')"
        by (auto simp: runTest_unfold bind_completion_Some)
      from updateSnapshot_effect[OF this] show ?thesis by blast
    qed
  qed
qed

lemma runTest_Normal:
  assumes "runTest L opts dir t fe w = Some (Normal fe', w')"
  shows "fe' = fe \<or> (\<exists>expected result. fe' = fe @ [failure L dir t expected result])"
  using assms
  by (auto simp: runTest_unfold bind_completion_Some split: sum.splits if_splits)

section \<open>The loop\<close>

lemma runTests_Cons_Some:
  assumes "runTests L opts dir (t # ts) fe w = Some (r, w')"
  obtains e where "runTest L opts dir t fe w = Some (Throw e, w')" "r = Throw e"
  | fe1 w1 where "runTest L opts dir t fe w = Some (Normal fe1, w1)"
      "runTests L opts dir ts fe1 w1 = Some (r, w')"
  using assms by (auto simp: bind_completion_Some)

lemma runTests_Throw:
  "runTests L opts dir ts fe w = Some (Throw e, w') \<Longrightarrow> \<exists>m. e = External m"
proof (induction ts arbitrary: fe w)
  case Nil
  then show ?case by simp
next
  case (Cons t ts)
  from Cons.prems show ?case
    by (rule runTests_Cons_Some) (auto dest: runTest_Throw Cons.IH)
qed

lemma runTests_Normal:
  "runTests L opts dir ts fe w = Some (Normal fe', w') \<Longrightarrow>
     \<exists>new. fe' = fe @ new \<and> length new \<le> length ts"
proof (induction ts arbitrary: fe w)
  case Nil
  then show ?case by simp
next
  case (Cons t ts)
  from Cons.prems show ?case
  proof (rule runTests_Cons_Some)
    fix fe1 w1
    assume one: "runTest L opts dir t fe w = Some (Normal fe1, w1)"
      and rest: "runTests L opts dir ts fe1 w1 = Some (Normal fe', w')"
    from runTest_Normal[OF one] obtain n1 where n1: "fe1 = fe @ n1" "length n1 \<le> 1"
      by (metis append_Nil2 le_numeral_extra(4) length_Cons list.size(3) One_nat_def zero_le)
    from Cons.IH[OF rest] obtain n2 where n2: "fe' = fe1 @ n2" "length n2 \<le> length ts"
      by blast
    from n1 n2 have "fe' = fe @ (n1 @ n2)" "length (n1 @ n2) \<le> length (t # ts)" by auto
    then show ?thesis by blast
  qed simp
qed

text \<open>
  The events of the loop: for the tests evaluated (all of them unless a collaborator raised),
  in order, one progress line and then one invocation each, and at most one write each.
\<close>

lemma runTests_trace:
  "runTests L opts dir ts fe w = Some (r, w') \<Longrightarrow>
     \<exists>evs k. trace w' = trace w @ evs \<and> k \<le> length ts \<and>
       filter (\<lambda>e. is_progress e \<or> is_invoke e) evs =
         concat (map (\<lambda>t. [progressLine t, invocation L opts dir t]) (take k ts)) \<and>
       filter is_progress evs = map progressLine (take k ts) \<and>
       filter is_invoke evs = map (invocation L opts dir) (take k ts) \<and>
       length (filter is_write evs) \<le> k \<and>
       (\<not> update opts \<longrightarrow> evs = concat (map (\<lambda>t. [progressLine t, invocation L opts dir t]) (take k ts))) \<and>
       ((\<exists>fe'. r = Normal fe') \<longrightarrow> k = length ts)"
proof (induction ts arbitrary: fe w)
  case Nil
  then show ?case by simp
next
  case (Cons t ts)
  let ?two = "\<lambda>t. [progressLine t, invocation L opts dir t]"
  have step: "\<exists>new. trace v = trace w @ new \<and>
      filter (\<lambda>e. is_progress e \<or> is_invoke e) new = ?two t \<and>
      filter is_progress new = [progressLine t] \<and>
      filter is_invoke new = [invocation L opts dir t] \<and>
      length (filter is_write new) \<le> 1 \<and>
      (\<not> update opts \<longrightarrow> new = ?two t)"
    if "runTest L opts dir t fe w = Some (r1, v)" for r1 v
  proof -
    from runTest_trace[OF that] obtain mk wr where
      tr: "trace v = trace w @ ?two t @ mk @ wr" and mk: "\<forall>e \<in> set mk. is_mkdir e"
      and wr: "wr = [] \<or> (\<exists>result. wr = [WriteFileSync (snapshotPath L dir t) result])"
      and nu: "\<not> update opts \<longrightarrow> mk = [] \<and> wr = []"
      by blast
    show ?thesis
      by (rule exI[of _ "?two t @ mk @ wr"]) (use tr mk wr nu in auto)
  qed
  from Cons.prems show ?case
  proof (rule runTests_Cons_Some)
    fix e
    assume one: "runTest L opts dir t fe w = Some (Throw e, w')" and r: "r = Throw e"
    from step[OF one] obtain new where new: "trace w' = trace w @ new"
      "filter (\<lambda>e. is_progress e \<or> is_invoke e) new = ?two t"
      "filter is_progress new = [progressLine t]"
      "filter is_invoke new = [invocation L opts dir t]"
      "length (filter is_write new) \<le> 1"
      "\<not> update opts \<longrightarrow> new = ?two t"
      by blast
    show ?thesis
      by (rule exI[of _ new], rule exI[of _ 1]) (use new r in simp)
  next
    fix fe1 w1
    assume one: "runTest L opts dir t fe w = Some (Normal fe1, w1)"
      and rest: "runTests L opts dir ts fe1 w1 = Some (r, w')"
    from step[OF one] obtain new where new: "trace w1 = trace w @ new"
      "filter (\<lambda>e. is_progress e \<or> is_invoke e) new = ?two t"
      "filter is_progress new = [progressLine t]"
      "filter is_invoke new = [invocation L opts dir t]"
      "length (filter is_write new) \<le> 1"
      "\<not> update opts \<longrightarrow> new = ?two t"
      by blast
    from Cons.IH[OF rest] obtain evs k where evs: "trace w' = trace w1 @ evs" "k \<le> length ts"
      "filter (\<lambda>e. is_progress e \<or> is_invoke e) evs = concat (map ?two (take k ts))"
      "filter is_progress evs = map progressLine (take k ts)"
      "filter is_invoke evs = map (invocation L opts dir) (take k ts)"
      "length (filter is_write evs) \<le> k"
      "\<not> update opts \<longrightarrow> evs = concat (map ?two (take k ts))"
      "(\<exists>fe'. r = Normal fe') \<longrightarrow> k = length ts"
      by blast
    show ?thesis
      by (rule exI[of _ "new @ evs"], rule exI[of _ "Suc k"]) (use new evs in simp)
  qed
qed

section \<open>The whole run\<close>

lemma loadTests_Normal:
  assumes "loadTests L opts testArg w = (Normal (dir, ts), w1)"
  shows "dir = dirname L (resolve L (ParsedCliOptions.cwd opts) testArg)"
    and "w1 = console_log (''Loading tests from '' @ resolve L (ParsedCliOptions.cwd opts) testArg @
                 ''\<newline>'') w"
  using assms by (auto simp: loadTests_def Let_def split: if_splits sum.splits)

lemma main_suite:
  assumes "minimist L (args rawOpts) = opts" "\<not> help' opts" "test opts = Some testArg"
    "testArg \<noteq> []" "loadTests L opts testArg w = (Normal (dir, ts), w1)"
  shows "main L rawOpts w =
     Option.bind (runTests L opts dir ts [] w1)
       (\<lambda>(r, w2). case r of
             Throw e \<Rightarrow> Some (Throw e, w2)
           | Normal fe \<Rightarrow> Some (reportResults opts rawOpts fe w2))"
  using assms by (simp add: main_def runSuite_def)

lemma main_single:
  assumes "minimist L (args rawOpts) = opts" "\<not> help' opts" "test opts = None \<or> test opts = Some []"
  shows "main L rawOpts w = Some (singleRun L opts w)"
  using assms by (auto simp: main_def)

lemma string_of_nat_digit: "\<exists>d ds. string_of_nat n = d # ds \<and> d \<in> set ''0123456789''"
proof (induction n rule: string_of_nat.induct)
  case (1 n)
  show ?case
  proof (cases "n < 10")
    case True
    then have "''0123456789'' ! n \<in> set ''0123456789''"
      by (intro nth_mem) simp
    with True show ?thesis by (subst string_of_nat.simps) simp
  next
    case False
    with 1 obtain d ds where "string_of_nat (n div 10) = d # ds" "d \<in> set ''0123456789''"
      by blast
    with False show ?thesis by (subst string_of_nat.simps) simp
  qed
qed

lemma count_line_not_progress [simp]: "\<not> is_progress (ConsoleLog (string_of_nat n @ s))"
proof -
  obtain d ds where "string_of_nat n = d # ds" "d \<in> set ''0123456789''"
    using string_of_nat_digit by blast
  then show ?thesis by (auto simp: is_progress_def)
qed

lemma join_Cons: "\<exists>rest. join sep (x # xs) = x @ rest"
  by (cases xs) auto

lemma diffs_not_progress [simp]:
  "fe \<noteq> [] \<Longrightarrow> \<not> is_progress (ConsoleLog (join sep (map snapshotChanged fe)))"
proof -
  assume "fe \<noteq> []"
  then obtain f fs where "fe = f # fs" by (cases fe) auto
  then obtain rest where "join sep (map snapshotChanged fe) = snapshotChanged f @ rest"
    using join_Cons[of sep "snapshotChanged f" "map snapshotChanged fs"] by auto
  then show ?thesis by (simp add: is_progress_def snapshotChanged_def)
qed

lemma kinds_ConsoleLog [simp]:
  "\<not> is_invoke (ConsoleLog s)" "\<not> is_write (ConsoleLog s)" "\<not> is_mkdir (ConsoleLog s)"
  by (simp_all add: is_invoke_def is_write_def is_mkdir_def)

text \<open>The report, line by line.\<close>

lemma reportResults_passed:
  "reportResults opts rawOpts [] w =
     (Normal Undefined, w\<lparr>trace := trace w @ [ConsoleLog [], ConsoleLog ''All tests passed.'']\<rparr>)"
  by (simp add: reportResults_def console_log_def emit_def)

lemma reportResults_updated:
  "fe \<noteq> [] \<Longrightarrow> update opts \<Longrightarrow>
   reportResults opts rawOpts fe w =
     (Normal Undefined,
      w\<lparr>trace := trace w @
          [ConsoleLog [],
           ConsoleLog ''The following snapshots have changed:\<newline>\<newline>'',
           ConsoleLog (join ''\<newline>'' (map snapshotChanged fe)),
           ConsoleLog (string_of_nat (length fe) @ '' test expectations updated.\<newline>'')]\<rparr>)"
  by (simp add: reportResults_def console_log_def emit_def)

lemma reportResults_failed:
  "fe \<noteq> [] \<Longrightarrow> \<not> update opts \<Longrightarrow>
   reportResults opts rawOpts fe w =
     (Throw (Thrown []),
      w\<lparr>trace := trace w @
          [ConsoleLog [],
           ConsoleLog ''The following snapshots have changed:\<newline>\<newline>'',
           ConsoleLog (join ''\<newline>'' (map snapshotChanged fe)),
           ConsoleLog (string_of_nat (length fe) @ '' tests failed, see above for diffs.''),
           ConsoleLog ''To update the expectations, run this command again with the --update flag:'',
           ConsoleLog [],
           ConsoleLog (''  '' @ join '' '' (args rawOpts) @ '' --update'')]\<rparr>)"
  by (simp add: reportResults_def console_log_def emit_def Let_def)

lemma reportResults_trace:
  "\<exists>logs. trace (snd (reportResults opts rawOpts fe w)) = trace w @ logs \<and>
      filter is_progress logs = [] \<and> filter is_invoke logs = [] \<and>
      filter is_write logs = [] \<and> filter is_mkdir logs = []"
proof (cases "fe = []")
  case True
  then show ?thesis by (simp add: reportResults_passed is_progress_def)
next
  case False
  then show ?thesis
    by (cases "update opts")
      (simp_all add: reportResults_updated reportResults_failed, simp_all add: is_progress_def)
qed

lemma main_suite_trace:
  assumes "minimist L (args rawOpts) = opts" and "\<not> help' opts"
    and "test opts = Some testArg" and "testArg \<noteq> []"
    and "loadTests L opts testArg w = (Normal (dir, ts), w1)"
    and "main L rawOpts w = Some (r, w')"
  shows "\<exists>evs k. trace w' = trace w @ evs \<and> k \<le> length ts \<and>
       filter (\<lambda>e. is_progress e \<or> is_invoke e) evs =
         concat (map (\<lambda>t. [progressLine t, invocation L opts dir t]) (take k ts)) \<and>
       filter is_progress evs = map progressLine (take k ts) \<and>
       filter is_invoke evs = map (invocation L opts dir) (take k ts) \<and>
       length (filter is_write evs) \<le> k \<and>
       (\<not> update opts \<longrightarrow> filter is_write evs = [] \<and> filter is_mkdir evs = []) \<and>
       ((\<forall>m. r \<noteq> Throw (External m)) \<longrightarrow> k = length ts)"
proof -
  let ?two = "\<lambda>t. [progressLine t, invocation L opts dir t]"
  define load where
    "load = ConsoleLog (''Loading tests from '' @ resolve L (ParsedCliOptions.cwd opts) testArg @ ''\<newline>'')"
  have w1: "trace w1 = trace w @ [load]"
    using loadTests_Normal(2)[OF assms(5)] by (simp add: load_def)
  have load: "\<not> is_progress load" "\<not> is_invoke load" "\<not> is_write load" "\<not> is_mkdir load"
    by (simp_all add: load_def is_progress_def)
  from assms(6) main_suite[OF assms(1-5)]
  consider e where "runTests L opts dir ts [] w1 = Some (Throw e, w')" "r = Throw e"
    | fe w2 where "runTests L opts dir ts [] w1 = Some (Normal fe, w2)"
        "reportResults opts rawOpts fe w2 = (r, w')"
    by (auto simp: bind_completion_Some)
  then show ?thesis
  proof cases
    case 1
    from runTests_trace[OF 1(1)] obtain evs k where evs: "trace w' = trace w1 @ evs" "k \<le> length ts"
      "filter (\<lambda>e. is_progress e \<or> is_invoke e) evs = concat (map ?two (take k ts))"
      "filter is_progress evs = map progressLine (take k ts)"
      "filter is_invoke evs = map (invocation L opts dir) (take k ts)"
      "length (filter is_write evs) \<le> k"
      "\<not> update opts \<longrightarrow> evs = concat (map ?two (take k ts))"
      by blast
    from runTests_Throw[OF 1(1)] 1(2) have ext: "(\<forall>m. r \<noteq> Throw (External m)) \<longrightarrow> k = length ts" by auto
    have nw: "\<not> update opts \<longrightarrow> filter is_write evs = [] \<and> filter is_mkdir evs = []"
    proof
      assume "\<not> update opts"
      with evs(7) have "evs = concat (map ?two (take k ts))" by simp
      then show "filter is_write evs = [] \<and> filter is_mkdir evs = []"
        by (simp add: filter_concat filter_empty_conv)
    qed
    show ?thesis
      by (rule exI[of _ "load # evs"], rule exI[of _ k]) (use w1 load evs nw ext in simp)
  next
    case 2
    from runTests_trace[OF 2(1)] obtain evs k where evs: "trace w2 = trace w1 @ evs" "k \<le> length ts"
      "filter (\<lambda>e. is_progress e \<or> is_invoke e) evs = concat (map ?two (take k ts))"
      "filter is_progress evs = map progressLine (take k ts)"
      "filter is_invoke evs = map (invocation L opts dir) (take k ts)"
      "length (filter is_write evs) \<le> k"
      "\<not> update opts \<longrightarrow> evs = concat (map ?two (take k ts))"
      "k = length ts"
      by blast
    from reportResults_trace[of opts rawOpts fe w2] 2(2)
    obtain logs where logs: "trace w' = trace w2 @ logs"
      "filter is_progress logs = []" "filter is_invoke logs = []"
      "filter is_write logs = []" "filter is_mkdir logs = []"
      by auto
    have nw: "\<not> update opts \<longrightarrow> filter is_write evs = [] \<and> filter is_mkdir evs = []"
    proof
      assume "\<not> update opts"
      with evs(7) have "evs = concat (map ?two (take k ts))" by simp
      then show "filter is_write evs = [] \<and> filter is_mkdir evs = []"
        by (simp add: filter_concat filter_empty_conv)
    qed
    have both: "filter (\<lambda>e. is_progress e \<or> is_invoke e) logs = []"
      using logs(2,3) by (auto simp: filter_empty_conv)
    show ?thesis
      by (rule exI[of _ "load # evs @ logs"], rule exI[of _ k])
        (use w1 load evs nw logs both in simp)
  qed
qed

lemma esModules_testOptions [simp]:
  "CheckSideEffectsOptions.esModules (testOptions opts ms t) = ms"
  by (simp add: testOptions_def split: option.split)

lemma runTest_writes:
  assumes "runTest L opts dir t fe w = Some (r, w')"
  shows "(update opts \<and> mismatch L opts dir t w \<longrightarrow>
            (\<exists>mk wr. trace w' = trace (invoked L opts dir t w) @ mk @ wr \<and>
               (\<forall>e \<in> set mk. is_mkdir e) \<and>
               (wr = [] \<or> (\<exists>result. answer L opts dir t w = Inr result \<and>
                              wr = [WriteFileSync (snapshotPath L dir t) result])) \<and>
               ((\<exists>fe'. r = Normal fe') \<longrightarrow> wr \<noteq> [])))"
    and "\<not> (update opts \<and> mismatch L opts dir t w) \<longrightarrow> w' = invoked L opts dir t w"
proof -
  show "\<not> (update opts \<and> mismatch L opts dir t w) \<longrightarrow> w' = invoked L opts dir t w"
    using assms
    by (auto simp: runTest_unfold mismatch_def split: sum.splits if_splits)
  show "update opts \<and> mismatch L opts dir t w \<longrightarrow>
            (\<exists>mk wr. trace w' = trace (invoked L opts dir t w) @ mk @ wr \<and>
               (\<forall>e \<in> set mk. is_mkdir e) \<and>
               (wr = [] \<or> (\<exists>result. answer L opts dir t w = Inr result \<and>
                              wr = [WriteFileSync (snapshotPath L dir t) result])) \<and>
               ((\<exists>fe'. r = Normal fe') \<longrightarrow> wr \<noteq> []))"
  proof
    assume um: "update opts \<and> mismatch L opts dir t w"
    then obtain result expected where ans: "answer L opts dir t w = Inr result"
      and ex: "loadExpectedOutput L (files (invoked L opts dir t w)) (snapshotPath L dir t) = Inr expected"
      and ne: "result \<noteq> expected"
      by (auto simp: mismatch_def split: sum.splits)
    with assms um obtain r3 where
      up: "updateSnapshot L (snapshotPath L dir t) result (invoked L opts dir t w) = Some (r3, w')"
      and r3: "(\<exists>fe'. r = Normal fe') \<longrightarrow> r3 = Normal ()"
      by (auto simp: runTest_unfold bind_completion_Some)
    from updateSnapshot_effect[OF up] obtain mk wr where
      "trace w' = trace (invoked L opts dir t w) @ mk @ wr" "\<forall>e \<in> set mk. is_mkdir e"
      "wr = [] \<or> wr = [WriteFileSync (snapshotPath L dir t) result]"
      "r3 = Normal () \<longrightarrow> wr = [WriteFileSync (snapshotPath L dir t) result]"
      by blast
    with ans r3 show "\<exists>mk wr. trace w' = trace (invoked L opts dir t w) @ mk @ wr \<and>
               (\<forall>e \<in> set mk. is_mkdir e) \<and>
               (wr = [] \<or> (\<exists>result. answer L opts dir t w = Inr result \<and>
                              wr = [WriteFileSync (snapshotPath L dir t) result])) \<and>
               ((\<exists>fe'. r = Normal fe') \<longrightarrow> wr \<noteq> [])"
      by (intro exI[of _ mk] exI[of _ wr]) auto
  qed
qed

lemma runTest_collects:
  assumes "runTest L opts dir t fe w = Some (Normal fe1, w1)"
  shows "if mismatch L opts dir t w then \<exists>expected result. fe1 = fe @ [failure L dir t expected result]
         else fe1 = fe"
  using assms
  by (auto simp: runTest_unfold mismatch_def bind_completion_Some split: sum.splits if_splits)

lemma runTest_cong:
  assumes "unresolvedEsModules t = unresolvedEsModules t'"
    and "Test.options t = Test.options t'"
    and "expectedOutput t = expectedOutput t'"
  shows "runTest L opts dir t fe w = runTest L opts dir t' fe w"
  unfolding runTest_def testOptions_def assms by (rule refl)

lemma no_module_is_a_configuration_error:
  assumes "minimist L (args rawOpts) = opts" and "\<not> help' opts"
    and "test opts = None \<or> test opts = Some []"
    and "positionals opts = str # later"
    and "(if isNodeBinary str then drop 1 later else later) = []"
  shows "main L rawOpts w =
     Some (Throw (Thrown
       ''You must provide at least one ES module. Use --help for usage information.''), w)"
  using assms(4,5)
  by (simp add: main_single[OF assms(1-3)] singleRun_def singleRunModules_def split: if_splits)

section \<open>Returning\<close>

text \<open>
  Outside update mode the loop always returns. In update mode it returns when directory creation
  does, which it does in every file system where each chain of parents reaches a path that
  exists.
\<close>

lemma updateSnapshot_returns:
  assumes "\<forall>fs p. \<exists>n. existsSync L fs ((dirname L ^^ n) p)"
  shows "\<exists>y. updateSnapshot L path result w = Some y"
proof -
  from assms obtain n where "existsSync L (files w) ((dirname L ^^ n) (dirname L path))"
    by blast
  then obtain r w1 where "recursiveMkDir L (dirname L path) w = Some (r, w1)"
    using recursiveMkDir_returns by fastforce
  then show ?thesis by (cases r) (simp_all add: updateSnapshot_def)
qed

lemma runTest_returns:
  assumes "\<not> update opts \<or> (\<forall>fs p. \<exists>n. existsSync L fs ((dirname L ^^ n) p))"
  shows "\<exists>y. runTest L opts dir t fe w = Some y"
proof (cases "update opts \<and> mismatch L opts dir t w")
  case False
  then show ?thesis
    by (auto simp: runTest_unfold mismatch_def split: sum.splits)
next
  case True
  then obtain result expected where ans: "answer L opts dir t w = Inr result"
    and ex: "loadExpectedOutput L (files (invoked L opts dir t w)) (snapshotPath L dir t) = Inr expected"
    and ne: "result \<noteq> expected"
    by (auto simp: mismatch_def split: sum.splits)
  from True assms obtain r w3 where
    "updateSnapshot L (snapshotPath L dir t) result (invoked L opts dir t w) = Some (r, w3)"
    using updateSnapshot_returns by fastforce
  with True ans ex ne show ?thesis by (cases r) (simp_all add: runTest_unfold)
qed

lemma runTests_returns:
  assumes "\<not> update opts \<or> (\<forall>fs p. \<exists>n. existsSync L fs ((dirname L ^^ n) p))"
  shows "\<exists>y. runTests L opts dir ts fe w = Some y"
proof (induction ts arbitrary: fe w)
  case Nil
  show ?case by simp
next
  case (Cons t ts)
  from runTest_returns[OF assms] obtain r w1 where
    one: "runTest L opts dir t fe w = Some (r, w1)" by fastforce
  show ?case
  proof (cases r)
    case (Normal fe1)
    with one Cons.IH[of fe1 w1] show ?thesis by simp
  next
    case (Throw e)
    with one show ?thesis by simp
  qed
qed

lemma main_suite_returns:
  assumes "minimist L (args rawOpts) = opts" and "\<not> help' opts"
    and "test opts = Some testArg" and "testArg \<noteq> []"
    and "loadTests L opts testArg w = (Normal (dir, ts), w1)"
    and "\<not> update opts \<or> (\<forall>fs p. \<exists>n. existsSync L fs ((dirname L ^^ n) p))"
  shows "\<exists>r w'. main L rawOpts w = Some (r, w')"
proof -
  from runTests_returns[OF assms(6)] obtain r w2 where
    run: "runTests L opts dir ts [] w1 = Some (r, w2)" by fastforce
  show ?thesis
  proof (cases r)
    case (Normal fe)
    with run show ?thesis
      by (cases "reportResults opts rawOpts fe w2") (simp add: main_suite[OF assms(1-5)])
  next
    case (Throw e)
    with run show ?thesis by (simp add: main_suite[OF assms(1-5)])
  qed
qed

section \<open>Collaborators that do not fail\<close>

text \<open>
  When no call of a collaborator fails, directory creation, the snapshot update, every test
  and the loop return normally, whatever the comparisons give.
\<close>

lemma call_mkdirSync_succeeds:
  "fst (mkdirSync L (files w) path) = Inr () \<Longrightarrow> \<exists>w'. call_mkdirSync L path w = (Normal (), w')"
  by (cases "mkdirSync L (files w) path") (simp add: call_mkdirSync_def)

lemma call_writeFileSync_succeeds:
  "fst (writeFileSync L (files w) path s) = Inr () \<Longrightarrow>
     \<exists>w'. call_writeFileSync L path s w = (Normal (), w')"
  by (cases "writeFileSync L (files w) path s") (simp add: call_writeFileSync_def)

lemma recursiveMkDir_succeeds:
  assumes "\<forall>fs p. fst (mkdirSync L fs p) = Inr ()"
  shows "existsSync L (files w) ((dirname L ^^ n) path) \<Longrightarrow>
     \<exists>w1. recursiveMkDir L path w = Some (Normal (), w1)"
proof (induction n arbitrary: path)
  case 0
  then show ?case by (simp add: recursiveMkDir_existing)
next
  case (Suc n)
  show ?case
  proof (cases "existsSync L (files w) path")
    case True
    then show ?thesis by (simp add: recursiveMkDir_existing)
  next
    case False
    from Suc.prems have "existsSync L (files w) ((dirname L ^^ n) (dirname L path))"
      by (simp add: funpow_swap1)
    then obtain w1 where up: "recursiveMkDir L (dirname L path) w = Some (Normal (), w1)"
      using Suc.IH by blast
    from assms obtain w2 where "call_mkdirSync L path w1 = (Normal (), w2)"
      using call_mkdirSync_succeeds by blast
    with False up show ?thesis
      by (subst recursiveMkDir.simps) simp
  qed
qed

lemma updateSnapshot_succeeds:
  assumes "updatesSucceed L"
  shows "\<exists>w'. updateSnapshot L path result w = Some (Normal (), w')"
proof -
  from assms obtain n where "existsSync L (files w) ((dirname L ^^ n) (dirname L path))"
    by blast
  with assms obtain w1 where mk: "recursiveMkDir L (dirname L path) w = Some (Normal (), w1)"
    using recursiveMkDir_succeeds by blast
  from assms obtain w2 where "call_writeFileSync L path result w1 = (Normal (), w2)"
    using call_writeFileSync_succeeds by blast
  with mk show ?thesis by (simp add: updateSnapshot_def)
qed

text \<open>One test outside update mode, completely: it raises only what the checker or the read raised.\<close>

lemma runTest_comparing:
  assumes "\<not> update opts"
  shows "runTest L opts dir t fe w =
     Some (case answer L opts dir t w of
             Inl m \<Rightarrow> Throw (External m)
           | Inr result \<Rightarrow>
               (case loadExpectedOutput L (files (invoked L opts dir t w)) (snapshotPath L dir t) of
                  Inl m \<Rightarrow> Throw (External m)
                | Inr expected \<Rightarrow>
                    Normal (if result \<noteq> expected then fe @ [failure L dir t expected result]
                            else fe)),
           invoked L opts dir t w)"
  using assms by (simp add: runTest_unfold split: sum.split)

lemma runTest_updating:
  assumes "update opts" and "answer L opts dir t w = Inr result"
    and "loadExpectedOutput L (files (invoked L opts dir t w)) (snapshotPath L dir t) = Inr expected"
    and "result \<noteq> expected"
    and "updateSnapshot L (snapshotPath L dir t) result (invoked L opts dir t w) = Some (Normal (), w')"
  shows "runTest L opts dir t fe w = Some (Normal (fe @ [failure L dir t expected result]), w')"
  using assms by (simp add: runTest_unfold)

lemma loadExpectedOutput_succeeds:
  assumes "readsSucceed L"
  shows "\<exists>expected. loadExpectedOutput L fs p = Inr expected"
  using assms by (simp add: loadExpectedOutput_def)

lemma runTest_succeeds:
  assumes "checkerAnswers L" and "readsSucceed L" and "\<not> update opts \<or> updatesSucceed L"
  shows "\<exists>fe1 w1. runTest L opts dir t fe w = Some (Normal fe1, w1)"
proof -
  from assms(1) obtain result where ans: "answer L opts dir t w = Inr result"
    unfolding answer_def by blast
  from loadExpectedOutput_succeeds[OF assms(2)] obtain expected where
    ex: "loadExpectedOutput L (files (invoked L opts dir t w)) (snapshotPath L dir t) = Inr expected"
    by blast
  show ?thesis
  proof (cases "update opts \<and> result \<noteq> expected")
    case False
    with ans ex show ?thesis by (auto simp: runTest_unfold)
  next
    case True
    with assms(3) have "updatesSucceed L" by blast
    then obtain w' where
      "updateSnapshot L (snapshotPath L dir t) result (invoked L opts dir t w) = Some (Normal (), w')"
      using updateSnapshot_succeeds by blast
    with True ans ex show ?thesis by (simp add: runTest_updating)
  qed
qed

lemma runTests_succeeds:
  assumes "checkerAnswers L" and "readsSucceed L" and "\<not> update opts \<or> updatesSucceed L"
  shows "\<exists>fe' w'. runTests L opts dir ts fe w = Some (Normal fe', w')"
proof (induction ts arbitrary: fe w)
  case Nil
  show ?case by simp
next
  case (Cons t ts)
  from runTest_succeeds[OF assms] obtain fe1 w1 where
    "runTest L opts dir t fe w = Some (Normal fe1, w1)" by blast
  with Cons.IH[of fe1 w1] show ?case by simp
qed

lemma reportResults_outcome:
  "fst (reportResults opts rawOpts fe w) = Normal Undefined \<or>
   fst (reportResults opts rawOpts fe w) = Throw (Thrown [])"
  by (cases "fe = []"; cases "update opts")
    (simp_all add: reportResults_passed reportResults_updated reportResults_failed)

section \<open>Where a raised error comes from\<close>

text \<open>
  An error raised by directory creation, the snapshot update, a test, the loop or the run in
  suite mode is one that a call of a collaborator returned.
\<close>

lemma call_mkdirSync_raised:
  "call_mkdirSync L path w = (Throw e, w') \<Longrightarrow>
     \<exists>m. e = External m \<and> fst (mkdirSync L (files w) path) = Inl m"
  by (auto simp: call_mkdirSync_def split: prod.splits sum.splits)

lemma call_writeFileSync_raised:
  "call_writeFileSync L path s w = (Throw e, w') \<Longrightarrow>
     \<exists>m. e = External m \<and> fst (writeFileSync L (files w) path s) = Inl m"
  by (auto simp: call_writeFileSync_def split: prod.splits sum.splits)

lemma recursiveMkDir_raised_aux:
  assumes "recursiveMkDir L path w = Some y"
  shows "\<forall>e. fst y = Throw e \<longrightarrow> (\<exists>m. e = External m \<and> (\<exists>fs p. fst (mkdirSync L fs p) = Inl m))"
proof (rule recursiveMkDir.raw_induct
    [where P = "\<lambda>L path w y. \<forall>e. fst y = Throw e \<longrightarrow>
         (\<exists>m. e = External m \<and> (\<exists>fs p. fst (mkdirSync L fs p) = Inl m))",
      OF _ assms])
  fix rec :: "'a lib \<Rightarrow> string \<Rightarrow> 'a world \<Rightarrow> (unit completion \<times> 'a world) option"
  fix L path w y
  assume IH: "\<And>L path w y. rec L path w = Some y \<Longrightarrow>
     \<forall>e. fst y = Throw e \<longrightarrow> (\<exists>m. e = External m \<and> (\<exists>fs p. fst (mkdirSync L fs p) = Inl m))"
  assume body: "(if \<not> existsSync L (files w) path
      then Option.bind (rec L (dirname L path) w)
            (\<lambda>(r, w1).
                case r of Normal u \<Rightarrow> Some (call_mkdirSync L path w1)
                | Throw e \<Rightarrow> Some (Throw e, w1))
      else Some (Normal (), w)) = Some y"
  show "\<forall>e. fst y = Throw e \<longrightarrow> (\<exists>m. e = External m \<and> (\<exists>fs p. fst (mkdirSync L fs p) = Inl m))"
  proof (cases "existsSync L (files w) path")
    case True
    with body show ?thesis by auto
  next
    case False
    with body consider e w1 where "rec L (dirname L path) w = Some (Throw e, w1)" "y = (Throw e, w1)"
      | u w1 where "rec L (dirname L path) w = Some (Normal u, w1)" "call_mkdirSync L path w1 = y"
      by (auto simp: bind_completion_Some)
    then show ?thesis
    proof cases
      case 1
      with IH[OF 1(1)] show ?thesis by simp
    next
      case 2
      show ?thesis
      proof (intro allI impI)
        fix e
        assume "fst y = Throw e"
        with 2(2) have "call_mkdirSync L path w1 = (Throw e, snd y)"
          by (metis prod.collapse)
        from call_mkdirSync_raised[OF this]
        show "\<exists>m. e = External m \<and> (\<exists>fs p. fst (mkdirSync L fs p) = Inl m)" by blast
      qed
    qed
  qed
qed

lemma recursiveMkDir_raised:
  "recursiveMkDir L path w = Some (Throw e, w') \<Longrightarrow>
     \<exists>m. e = External m \<and> (\<exists>fs p. fst (mkdirSync L fs p) = Inl m)"
  using recursiveMkDir_raised_aux by fastforce

lemma updateSnapshot_raised:
  assumes "updateSnapshot L path result w = Some (Throw e, w')"
  shows "\<exists>m. e = External m \<and> raisedBy L m"
proof -
  from assms consider "recursiveMkDir L (dirname L path) w = Some (Throw e, w')"
    | w1 where "call_writeFileSync L path result w1 = (Throw e, w')"
    by (auto simp: updateSnapshot_def bind_completion_Some)
  then show ?thesis
  proof cases
    case 1
    from recursiveMkDir_raised[OF 1] show ?thesis by blast
  next
    case 2
    from call_writeFileSync_raised[OF 2] show ?thesis by blast
  qed
qed

lemma loadExpectedOutput_raised:
  "loadExpectedOutput L fs p = Inl m \<Longrightarrow> readFileSync L fs p = Inl m"
  by (simp add: loadExpectedOutput_def split: if_splits)

lemma runTest_raised:
  assumes "runTest L opts dir t fe w = Some (Throw e, w')"
  shows "\<exists>m. e = External m \<and> raisedBy L m"
proof (cases "answer L opts dir t w")
  case (Inl m)
  with assms have e: "e = External m" by (auto simp: runTest_unfold)
  from Inl have "fst (checkSideEffects L
            (testOptions opts (map (resolve L dir) (unresolvedEsModules t)) t) (files w)) = Inl m"
    by (simp add: answer_def)
  then have "\<exists>sent fs. fst (checkSideEffects L sent fs) = Inl m"
    by (intro exI)
  with e show ?thesis by simp
next
  case (Inr result)
  note ans = this
  show ?thesis
  proof (cases "loadExpectedOutput L (files (invoked L opts dir t w)) (snapshotPath L dir t)")
    case (Inl m)
    with assms ans have e: "e = External m" by (auto simp: runTest_unfold)
    from loadExpectedOutput_raised[OF Inl] have "\<exists>fs p. readFileSync L fs p = Inl m"
      by (intro exI)
    with e show ?thesis by simp
  next
    case (Inr expected)
    show ?thesis
    proof (cases "result \<noteq> expected \<and> update opts")
      case False
      with assms ans Inr show ?thesis by (auto simp: runTest_unfold split: if_splits)
    next
      case True
      with assms ans Inr have
        "updateSnapshot L (snapshotPath L dir t) result (invoked L opts dir t w) = Some (Throw e, w')"
        by (auto simp: runTest_unfold bind_completion_Some)
      then show ?thesis by (rule updateSnapshot_raised)
    qed
  qed
qed

lemma runTests_raised:
  "runTests L opts dir ts fe w = Some (Throw e, w') \<Longrightarrow> \<exists>m. e = External m \<and> raisedBy L m"
proof (induction ts arbitrary: fe w)
  case Nil
  then show ?case by simp
next
  case (Cons t ts)
  from Cons.prems show ?case
  proof (rule runTests_Cons_Some)
    fix e'
    assume "runTest L opts dir t fe w = Some (Throw e', w')" "Throw e = Throw e'"
    then show ?thesis using runTest_raised[of L opts dir t fe w e w'] by simp
  next
    fix fe1 w1
    assume "runTests L opts dir ts fe1 w1 = Some (Throw e, w')"
    then show ?thesis by (rule Cons.IH)
  qed
qed

lemma main_suite_raised:
  assumes "minimist L (args rawOpts) = opts" and "\<not> help' opts"
    and "test opts = Some testArg" and "testArg \<noteq> []"
    and "loadTests L opts testArg w = (Normal (dir, ts), w1)"
    and "main L rawOpts w = Some (Throw e, v)"
  shows "e = Thrown [] \<and> \<not> update opts \<or> (\<exists>m. e = External m \<and> raisedBy L m)"
proof -
  from assms(6) have "Option.bind (runTests L opts dir ts [] w1)
       (\<lambda>(r, w2). case r of
             Throw e \<Rightarrow> Some (Throw e, w2)
           | Normal fe \<Rightarrow> Some (reportResults opts rawOpts fe w2)) = Some (Throw e, v)"
    by (simp add: main_suite[OF assms(1-5)])
  then consider "runTests L opts dir ts [] w1 = Some (Throw e, v)"
    | fe w2 where "reportResults opts rawOpts fe w2 = (Throw e, v)"
    by (auto simp: bind_completion_Some)
  then show ?thesis
  proof cases
    case 1
    from runTests_raised[OF 1] show ?thesis by blast
  next
    case 2
    then show ?thesis
      by (cases "fe = []"; cases "update opts")
        (simp_all add: reportResults_passed reportResults_updated reportResults_failed)
  qed
qed

lemma main_suite_succeeds:
  assumes "minimist L (args rawOpts) = opts" and "\<not> help' opts"
    and "test opts = Some testArg" and "testArg \<noteq> []"
    and "loadTests L opts testArg w = (Normal (dir, ts), w1)"
    and "checkerAnswers L" and "readsSucceed L" and "\<not> update opts \<or> updatesSucceed L"
  shows "\<exists>fe w2. runTests L opts dir ts [] w1 = Some (Normal fe, w2) \<and>
           main L rawOpts w = Some (reportResults opts rawOpts fe w2)"
proof -
  from runTests_succeeds[OF assms(6-8)] obtain fe w2 where
    "runTests L opts dir ts [] w1 = Some (Normal fe, w2)" by blast
  then show ?thesis by (auto simp: main_suite[OF assms(1-5)])
qed

section \<open>The sample runs\<close>

text \<open>The sample environment, evaluated.\<close>

lemma sample_parsed:
  "minimist sample_lib (args \<lparr>args = sample_args\<rparr>) = sample_opts"
  "\<not> help' sample_opts"
  "test sample_opts = Some ''/suite/tests.json''"
  "\<not> update sample_opts"
  by code_simp+

lemma sample_parsed_update:
  "minimist sample_lib (args \<lparr>args = sample_args_update\<rparr>) = sample_opts_update"
  "\<not> help' sample_opts_update"
  "test sample_opts_update = Some ''/suite/tests.json''"
  "update sample_opts_update"
  by code_simp+

lemma sample_descriptor_loaded:
  "loadTests sample_lib sample_opts ''/suite/tests.json'' sample_world =
     (Normal (''/suite'', sample_tests), sample_loaded)"
  "loadTests sample_lib sample_opts_update ''/suite/tests.json'' sample_world =
     (Normal (''/suite'', sample_tests), sample_loaded)"
  by code_simp+

lemma sample_loop:
  "runTests sample_lib sample_opts ''/suite'' sample_tests [] sample_loaded =
     Some (Normal sample_failures, sample_ran)"
  "runTests sample_lib sample_opts_update ''/suite'' sample_tests [] sample_loaded =
     Some (Normal sample_failures, sample_ran_update)"
  by code_simp+

lemma sample_case_a:
  "runTest sample_lib sample_opts ''/suite'' sample_test_a [] sample_loaded =
     Some (Normal sample_failures, sample_after_a)"
  "runTest sample_lib sample_opts_update ''/suite'' sample_test_a [] sample_loaded =
     Some (Normal sample_failures, sample_updated_a)"
  by code_simp+

lemma sample_runs:
  "main sample_lib \<lparr>args = sample_args\<rparr> sample_world =
     Some (Throw (Thrown []), sample_ran\<lparr>trace := trace sample_ran @ sample_failed_report\<rparr>)"
  "main sample_lib \<lparr>args = sample_args_update\<rparr> sample_world =
     Some (Normal Undefined,
           sample_ran_update\<lparr>trace := trace sample_ran_update @ sample_updated_report\<rparr>)"
  by code_simp+

lemma sample_single_runs:
  "minimist sample_lib [] = sample_defaults"
  "\<not> help' sample_defaults"
  "test sample_defaults = None"
  "positionals sample_defaults = []"
  "minimist sample_lib [''/usr/bin/node'', ''/path/cli.js'', ''mod.js''] =
     sample_defaults\<lparr>positionals := [''/usr/bin/node'', ''/path/cli.js'', ''mod.js'']\<rparr>"
  "minimist sample_lib [''check-side-effects'', ''mod.js''] =
     sample_defaults\<lparr>positionals := [''check-side-effects'', ''mod.js'']\<rparr>"
  by code_simp+

lemma sample_blocked_run:
  "loadTests sample_lib sample_opts_update ''/suite/tests.json'' sample_blocked =
     (Normal (''/suite'', sample_tests), sample_blocked\<lparr>trace := [sample_loading]\<rparr>)"
  "main sample_lib \<lparr>args = sample_args_update\<rparr> sample_blocked =
     Some (Throw (External ''ENOENT''),
           sample_blocked\<lparr>trace :=
             [sample_loading, ConsoleLog ''Testing a.js'', sample_sent [''/suite/a.js''],
              WriteFileSync ''/suite/out/a.snap'' ''checked /suite/a.js'']\<rparr>)"
  by code_simp+

lemma sample_case_a_facts:
  "answer sample_lib sample_opts ''/suite'' sample_test_a sample_loaded = Inr ''checked /suite/a.js''"
  "answer sample_lib sample_opts_update ''/suite'' sample_test_a sample_loaded =
     Inr ''checked /suite/a.js''"
  "invoked sample_lib sample_opts ''/suite'' sample_test_a sample_loaded = sample_after_a"
  "invoked sample_lib sample_opts_update ''/suite'' sample_test_a sample_loaded = sample_after_a"
  "resolve sample_lib ''/suite'' (expectedOutput sample_test_a) = ''/suite/out/a.snap''"
  "snapshotPath sample_lib ''/suite'' sample_test_a = ''/suite/out/a.snap''"
  "\<not> existsSync sample_lib (files sample_after_a) ''/suite/out/a.snap''"
  "mismatch sample_lib sample_opts ''/suite'' sample_test_a sample_loaded"
  "mismatch sample_lib sample_opts_update ''/suite'' sample_test_a sample_loaded"
  "progressLine sample_test_a = ConsoleLog ''Testing a.js''"
  "progressLine sample_test_bc = ConsoleLog ''Testing b.js c.js''"
  "invocation sample_lib sample_opts ''/suite'' sample_test_a = sample_sent [''/suite/a.js'']"
  "invocation sample_lib sample_opts ''/suite'' sample_test_bc =
     sample_sent [''/suite/b.js'', ''/suite/c.js'']"
  by code_simp+

text \<open>The same, for the environment in which no call fails.\<close>

lemma sample_store_parsed:
  "minimist sample_plain (args \<lparr>args = sample_args\<rparr>) = sample_opts"
  "minimist sample_plain (args \<lparr>args = sample_args_update\<rparr>) = sample_opts_update"
  by code_simp+

lemma sample_store_descriptor_loaded:
  "loadTests sample_plain sample_opts ''/suite/tests.json'' sample_store_world =
     (Normal (''/suite'', sample_tests), sample_store_loaded)"
  "loadTests sample_plain sample_opts_update ''/suite/tests.json'' sample_store_world =
     (Normal (''/suite'', sample_tests), sample_store_loaded)"
  by code_simp+

lemma sample_store_loop:
  "runTests sample_plain sample_opts ''/suite'' sample_tests [] sample_store_loaded =
     Some (Normal sample_store_failures, sample_store_after_bc)"
  "runTests sample_plain sample_opts_update ''/suite'' sample_tests [] sample_store_loaded =
     Some (Normal sample_store_failures, sample_store_updated)"
  by code_simp+

lemma sample_case_a_update:
  "loadExpectedOutput sample_lib (files sample_after_a) ''/suite/out/a.snap'' = Inr []"
  "updateSnapshot sample_lib ''/suite/out/a.snap'' ''checked /suite/a.js'' sample_after_a =
     Some (Normal (), sample_updated_a)"
  by code_simp+

lemma sample_blocked_loop:
  "runTests sample_lib sample_opts_update ''/suite'' sample_tests []
       (sample_blocked\<lparr>trace := [sample_loading]\<rparr>) =
     Some (Throw (External ''ENOENT''), sample_blocked_failed)"
  by code_simp

text \<open>In the sample environment every chain of parents ends at the root, which exists.\<close>

lemma sample_dirname_shorter:
  "sample_dirname p = ''/'' \<or> length (sample_dirname p) < length p"
proof -
  define tail where "tail = dropWhile (\<lambda>c. c \<noteq> CHR ''/'') (rev p)"
  have le: "length tail \<le> length p"
    unfolding tail_def using length_dropWhile_le[of "\<lambda>c. c \<noteq> CHR ''/''" "rev p"] by simp
  have eq: "sample_dirname p = (if rev (drop 1 tail) = [] then ''/'' else rev (drop 1 tail))"
    unfolding tail_def sample_dirname_def Let_def ..
  show ?thesis
  proof (cases tail)
    case Nil
    with eq show ?thesis by simp
  next
    case (Cons c cs)
    with le have "length cs < length p" by simp
    with eq Cons show ?thesis by simp
  qed
qed

lemma sample_dirname_reaches_root: "\<exists>n. (sample_dirname ^^ n) p = ''/''"
proof (induction p rule: length_induct)
  case (1 p)
  from sample_dirname_shorter[of p] show ?case
  proof
    assume "sample_dirname p = ''/''"
    then have "(sample_dirname ^^ 1) p = ''/''" by simp
    then show ?thesis by blast
  next
    assume "length (sample_dirname p) < length p"
    with 1 obtain n where "(sample_dirname ^^ n) (sample_dirname p) = ''/''" by blast
    then have "(sample_dirname ^^ Suc n) p = ''/''" by (simp add: funpow_swap1)
    then show ?thesis by blast
  qed
qed

lemma sample_chains_end:
  "\<forall>fs p. \<exists>n. existsSync sample_lib fs ((dirname sample_lib ^^ n) p)"
proof (intro allI)
  fix fs :: sample_fs and p
  from sample_dirname_reaches_root obtain n where n: "(sample_dirname ^^ n) p = ''/''" by blast
  have "dirname sample_lib = sample_dirname" "existsSync sample_lib = sample_exists"
    by (simp_all add: sample_lib_def)
  with n have "existsSync sample_lib fs ((dirname sample_lib ^^ n) p)"
    by (simp add: sample_exists_def sample_node_def)
  then show "\<exists>n. existsSync sample_lib fs ((dirname sample_lib ^^ n) p)" ..
qed

lemma sample_store_succeeds:
  "checkerAnswers sample_plain" "readsSucceed sample_plain" "updatesSucceed sample_plain"
proof -
  show "checkerAnswers sample_plain" "readsSucceed sample_plain"
    by (simp_all add: sample_plain_def)
  have "\<exists>n. existsSync sample_plain fs ((dirname sample_plain ^^ n) p)" for fs p
  proof -
    from sample_dirname_reaches_root obtain n where n: "(sample_dirname ^^ n) p = ''/''" by blast
    have "dirname sample_plain = sample_dirname"
      "existsSync sample_plain = (\<lambda>fs p. p = ''/'' \<or> map_of fs p \<noteq> None)"
      by (simp_all add: sample_plain_def)
    with n have "existsSync sample_plain fs ((dirname sample_plain ^^ n) p)" by simp
    then show ?thesis ..
  qed
  moreover have "\<forall>fs p. fst (mkdirSync sample_plain fs p) = Inr ()"
    "\<forall>fs p s. fst (writeFileSync sample_plain fs p s) = Inr ()"
    by (simp_all add: sample_plain_def)
  ultimately show "updatesSucceed sample_plain" by simp
qed

section \<open>The claims\<close>

text \<open>
  The run-level claims are stated for a run in suite mode: the parsed options do not ask for
  help, name a non-empty \<^verbatim>\<open>--test\<close> argument, and the descriptor was found, read and parsed
  (\<open>loadTests\<close> returned its directory \<open>dir\<close> and its tests \<open>ts\<close>, in the world \<open>w1\<close> that
  holds the line announcing the descriptor).
\<close>



text \<open>
  C2. A suite run that is not in update mode and ends with at least one comparison failure
  prints, after the changed snapshots, the number of failed tests and the command that
  repeats the run in update mode (the original arguments joined by spaces, then
  \<^verbatim>\<open>--update\<close>), and only then raises: the run fails.
\<close>

theorem failing_suite_reports_and_raises:
  assumes "minimist L (args rawOpts) = opts" and "\<not> help' opts"
    and "test opts = Some testArg" and "testArg \<noteq> []"
    and "loadTests L opts testArg w = (Normal (dir, ts), w1)"
    and "\<not> update opts"
    and "runTests L opts dir ts [] w1 = Some (Normal fe, w2)"
    and "fe \<noteq> []"
  shows "main L rawOpts w =
     Some (Throw (Thrown []),
       w2\<lparr>trace := trace w2 @
          [ConsoleLog [],
           ConsoleLog ''The following snapshots have changed:\<newline>\<newline>'',
           ConsoleLog (join ''\<newline>'' (map snapshotChanged fe)),
           ConsoleLog (string_of_nat (length fe) @ '' tests failed, see above for diffs.''),
           ConsoleLog ''To update the expectations, run this command again with the --update flag:'',
           ConsoleLog [],
           ConsoleLog (''  '' @ join '' '' (args rawOpts) @ '' --update'')]\<rparr>)"
  using assms(6-8)
  by (simp add: main_suite[OF assms(1-5)] reportResults_failed)

theorem failing_suite_reports_and_raises_witness:
  "\<not> update sample_opts \<and> sample_failures \<noteq> [] \<and>
   runTests sample_lib sample_opts ''/suite'' sample_tests [] sample_loaded =
     Some (Normal sample_failures, sample_ran) \<and>
   main sample_lib \<lparr>args = sample_args\<rparr> sample_world =
     Some (Throw (Thrown []),
       sample_ran\<lparr>trace := trace sample_ran @ sample_failed_report\<rparr>)"
proof -
  have report: "[ConsoleLog [],
           ConsoleLog ''The following snapshots have changed:\<newline>\<newline>'',
           ConsoleLog (join ''\<newline>'' (map snapshotChanged sample_failures)),
           ConsoleLog (string_of_nat (length sample_failures) @
                         '' tests failed, see above for diffs.''),
           ConsoleLog ''To update the expectations, run this command again with the --update flag:'',
           ConsoleLog [],
           ConsoleLog (''  '' @ join '' '' (args \<lparr>args = sample_args\<rparr>) @ '' --update'')] =
         sample_failed_report"
    by code_simp
  have tests: "''/suite/tests.json'' \<noteq> []" by simp
  have some: "sample_failures \<noteq> []" by (simp add: sample_failures_def)
  from failing_suite_reports_and_raises
    [OF sample_parsed(1-3) tests sample_descriptor_loaded(1) sample_parsed(4) sample_loop(1) some]
  show ?thesis using sample_parsed(4) some sample_loop(1) report by simp
qed

text \<open>
  C3. When the snapshot file of a test does not exist after the checker has answered, nothing
  is read and nothing is raised for it: the expected text is the empty string. The test passes
  when the answer is empty; otherwise the failure recorded carries the patch from the empty
  text to the whole answer, labelled with the snapshot path (and in update mode the snapshot
  is then written).
\<close>

theorem missing_snapshot_is_empty_expectation:
  assumes "answer L opts dir t w = Inr result"
    and "\<not> existsSync L (files (invoked L opts dir t w)) (resolve L dir (expectedOutput t))"
  shows "loadExpectedOutput L (files (invoked L opts dir t w)) (resolve L dir (expectedOutput t)) =
       Inr [] \<and>
     runTest L opts dir t fe w =
       (if result = [] then Some (Normal fe, invoked L opts dir t w)
        else if update opts then
          Option.bind
            (updateSnapshot L (resolve L dir (expectedOutput t)) result (invoked L opts dir t w))
            (\<lambda>(r, w3). case r of
                  Throw e \<Rightarrow> Some (Throw e, w3)
                | Normal u \<Rightarrow>
                    Some (Normal (fe @
                      [\<lparr> testDescription = join '' '' (unresolvedEsModules t),
                         diff = createPatch L (resolve L dir (expectedOutput t)) [] result \<rparr>]), w3))
        else
          Some (Normal (fe @
            [\<lparr> testDescription = join '' '' (unresolvedEsModules t),
               diff = createPatch L (resolve L dir (expectedOutput t)) [] result \<rparr>]),
            invoked L opts dir t w))"
proof -
  have load: "loadExpectedOutput L (files (invoked L opts dir t w)) (snapshotPath L dir t) = Inr []"
    using assms(2) by (simp add: loadExpectedOutput_def snapshotPath_def)
  show ?thesis
    using assms(1) load
    unfolding runTest_unfold
    unfolding snapshotPath_def failure_def
    by simp
qed

theorem missing_snapshot_is_empty_expectation_witness:
  "answer sample_lib sample_opts ''/suite'' sample_test_a sample_loaded =
     Inr ''checked /suite/a.js'' \<and>
   \<not> existsSync sample_lib (files sample_after_a) ''/suite/out/a.snap'' \<and>
   runTest sample_lib sample_opts ''/suite'' sample_test_a [] sample_loaded =
     Some (Normal
       [\<lparr> testDescription = ''a.js'',
          diff = createPatch sample_lib ''/suite/out/a.snap'' [] ''checked /suite/a.js'' \<rparr>],
       sample_after_a)"
proof -
  have absent: "\<not> existsSync sample_lib
      (files (invoked sample_lib sample_opts ''/suite'' sample_test_a sample_loaded))
      (resolve sample_lib ''/suite'' (expectedOutput sample_test_a))"
    using sample_case_a_facts(7) by (simp add: sample_case_a_facts(3,5))
  have described: "join '' '' (unresolvedEsModules sample_test_a) = ''a.js''"
    by code_simp
  from missing_snapshot_is_empty_expectation[OF sample_case_a_facts(1) absent, of "[]"]
  show ?thesis
    using sample_case_a_facts(1,7) sample_parsed(4)
    by (simp add: sample_case_a_facts(3,5) described)
qed



text \<open>
  C5. In single-run mode an empty list of modules is meant to end the run with the message
  that at least one ES module must be provided (lemma \<open>no_module_is_a_configuration_error\<close>
  shows this whenever there is a positional argument to inspect). With no positional argument
  at all the run does not get that far: line 166 reads \<^verbatim>\<open>options._[0]\<close>, which is \<^verbatim>\<open>undefined\<close>,
  and \<^verbatim>\<open>isNodeBinary\<close> raises a \<^verbatim>\<open>TypeError\<close> instead of the configuration error.
\<close>

theorem no_positional_raises_TypeError:
  assumes "minimist L (args rawOpts) = opts" and "\<not> help' opts"
    and "test opts = None \<or> test opts = Some []"
    and "positionals opts = []"
  shows "main L rawOpts w = Some (Throw TypeError, w)"
  using assms by (simp add: main_single[OF assms(1-3)] singleRun_def singleRunModules_def)

theorem no_positional_raises_TypeError_witness:
  "minimist sample_lib (args \<lparr>args = []\<rparr>) = sample_defaults \<and>
   positionals sample_defaults = [] \<and>
   main sample_lib \<lparr>args = []\<rparr> sample_world = Some (Throw TypeError, sample_world)"
proof -
  have parsed: "minimist sample_lib (args \<lparr>args = []\<rparr>) = sample_defaults"
    using sample_single_runs(1) by simp
  have single: "test sample_defaults = None \<or> test sample_defaults = Some []"
    using sample_single_runs(3) by simp
  from no_positional_raises_TypeError
    [OF parsed sample_single_runs(2) single sample_single_runs(4), of sample_world]
  show ?thesis using parsed sample_single_runs(4) by simp
qed

text \<open>
  C6. The module list of a single run is the positional arguments without the first two when
  the first ends in \<^verbatim>\<open>node\<close> or \<^verbatim>\<open>node.exe\<close>, and without the first one otherwise. For the two
  argument vectors of the scenario, which the parser returns unchanged as positional arguments
  (they hold no flag), the checker is invoked with the module list \<^verbatim>\<open>["mod.js"]\<close>.
\<close>

theorem leading_tokens_are_stripped:
  assumes "minimist L argv = opts" and "\<not> help' opts" and "test opts = None"
    and "positionals opts = argv"
    and "argv = [''/usr/bin/node'', ''/path/cli.js'', ''mod.js''] \<or>
         argv = [''check-side-effects'', ''mod.js'']"
  shows "singleRunModules (positionals opts) = Normal [''mod.js''] \<and>
     main L \<lparr>args = argv\<rparr> w =
       Some (case call_checkSideEffects L (singleRunOptions opts [''mod.js'']) w of
               (Throw e, w1) \<Rightarrow> (Throw e, w1)
             | (Normal result, w1) \<Rightarrow> (Normal (CheckerResult result), w1)) \<and>
     (\<forall>str later. singleRunModules (str # later) =
        Normal (if endsWith str ''node'' \<or> endsWith str ''node.exe'' then drop 1 later else later))"
proof -
  have mods: "singleRunModules (positionals opts) = Normal [''mod.js'']"
    using assms(4,5) by (auto simp: singleRunModules_def isNodeBinary_def endsWith_def)
  have "main L \<lparr>args = argv\<rparr> w = Some (singleRun L opts w)"
    using assms(1-3) by (intro main_single) auto
  with mods have "main L \<lparr>args = argv\<rparr> w =
       Some (case call_checkSideEffects L (singleRunOptions opts [''mod.js'']) w of
               (Throw e, w1) \<Rightarrow> (Throw e, w1)
             | (Normal result, w1) \<Rightarrow> (Normal (CheckerResult result), w1))"
    by (simp add: singleRun_def)
  moreover have "\<forall>str later. singleRunModules (str # later) =
        Normal (if endsWith str ''node'' \<or> endsWith str ''node.exe'' then drop 1 later else later)"
    by (simp add: singleRunModules_def isNodeBinary_def)
  ultimately show ?thesis using mods by blast
qed

theorem leading_tokens_are_stripped_witness:
  "positionals (minimist sample_lib [''/usr/bin/node'', ''/path/cli.js'', ''mod.js'']) =
     [''/usr/bin/node'', ''/path/cli.js'', ''mod.js''] \<and>
   main sample_lib \<lparr>args = [''/usr/bin/node'', ''/path/cli.js'', ''mod.js'']\<rparr> sample_world =
     Some (Normal (CheckerResult ''checked mod.js''),
           sample_world\<lparr>trace :=
             [CheckSideEffects (singleRunOptions sample_defaults [''mod.js''])]\<rparr>) \<and>
   positionals (minimist sample_lib [''check-side-effects'', ''mod.js'']) =
     [''check-side-effects'', ''mod.js''] \<and>
   main sample_lib \<lparr>args = [''check-side-effects'', ''mod.js'']\<rparr> sample_world =
     Some (Normal (CheckerResult ''checked mod.js''),
           sample_world\<lparr>trace :=
             [CheckSideEffects (singleRunOptions sample_defaults [''mod.js''])]\<rparr>)"
proof -
  let ?node = "[''/usr/bin/node'', ''/path/cli.js'', ''mod.js'']"
  let ?binary = "[''check-side-effects'', ''mod.js'']"
  have node: "\<not> help' (sample_defaults\<lparr>positionals := ?node\<rparr>)"
    "test (sample_defaults\<lparr>positionals := ?node\<rparr>) = None"
    "positionals (sample_defaults\<lparr>positionals := ?node\<rparr>) = ?node"
    and binary: "\<not> help' (sample_defaults\<lparr>positionals := ?binary\<rparr>)"
    "test (sample_defaults\<lparr>positionals := ?binary\<rparr>) = None"
    "positionals (sample_defaults\<lparr>positionals := ?binary\<rparr>) = ?binary"
    using sample_single_runs(2,3) by simp_all
  have invoke: "(case call_checkSideEffects sample_lib
                    (singleRunOptions (sample_defaults\<lparr>positionals := p\<rparr>) [''mod.js''])
                    sample_world of
               (Throw e, w1) \<Rightarrow> (Throw e, w1)
             | (Normal result, w1) \<Rightarrow> (Normal (CheckerResult result), w1)) =
          (Normal (CheckerResult ''checked mod.js''),
           sample_world\<lparr>trace :=
             [CheckSideEffects (singleRunOptions sample_defaults [''mod.js''])]\<rparr>)" for p
    by (simp add: call_checkSideEffects_eq sample_lib_def sample_checker_def sample_world_def
        singleRunOptions_def)
  from leading_tokens_are_stripped[OF sample_single_runs(5) node, of sample_world]
    leading_tokens_are_stripped[OF sample_single_runs(6) binary, of sample_world]
  show ?thesis
    by (simp add: invoke sample_single_runs(5,6))
qed

text \<open>
  C7. A test that declares its modules as the single string \<^verbatim>\<open>p\<close> and one that declares the
  list \<^verbatim>\<open>[p]\<close> have the same one-element list of resolved modules and are run alike. The
  directory against which a test is resolved is the \<^verbatim>\<open>dirname\<close> of the descriptor's resolved
  path, not the working directory: the checker is invoked with the test's modules resolved
  against it, and the snapshot path (the label of the recorded patch, and the only path the
  test writes) is the test's \<^verbatim>\<open>expectedOutput\<close> resolved against it.
\<close>

theorem modules_and_snapshot_resolve_against_descriptor:
  assumes "loadTests L opts testArg w0 = (Normal (dir, ts), w1)"
  shows "dir = dirname L (resolve L (ParsedCliOptions.cwd opts) testArg) \<and>
     map (resolve L dir) (unresolvedEsModules (t\<lparr>Test.esModules := OneString p\<rparr>)) = [resolve L dir p] \<and>
     map (resolve L dir) (unresolvedEsModules (t\<lparr>Test.esModules := StringArray [p]\<rparr>)) = [resolve L dir p] \<and>
     runTest L opts dir (t\<lparr>Test.esModules := OneString p\<rparr>) fe w =
       runTest L opts dir (t\<lparr>Test.esModules := StringArray [p]\<rparr>) fe w \<and>
     (\<forall>r w'. runTest L opts dir t fe w = Some (r, w') \<longrightarrow>
        (\<exists>sent later. trace w' = trace w @ [progressLine t, CheckSideEffects sent] @ later \<and>
           CheckSideEffectsOptions.esModules sent = map (resolve L dir) (unresolvedEsModules t) \<and>
           (\<forall>q s. WriteFileSync q s \<in> set later \<longrightarrow> q = resolve L dir (expectedOutput t)) \<and>
           (\<forall>fe'. r = Normal fe' \<longrightarrow> fe' = fe \<or>
              (\<exists>expected result. fe' = fe @
                 [\<lparr> testDescription = join '' '' (unresolvedEsModules t),
                    diff = createPatch L (resolve L dir (expectedOutput t)) expected result \<rparr>]))))"
proof (intro conjI allI impI)
  show "dir = dirname L (resolve L (ParsedCliOptions.cwd opts) testArg)"
    using loadTests_Normal(1)[OF assms] .
  show "map (resolve L dir) (unresolvedEsModules (t\<lparr>Test.esModules := OneString p\<rparr>)) = [resolve L dir p]"
    by (simp add: unresolvedEsModules_def)
  show "map (resolve L dir) (unresolvedEsModules (t\<lparr>Test.esModules := StringArray [p]\<rparr>)) = [resolve L dir p]"
    by (simp add: unresolvedEsModules_def)
  show "runTest L opts dir (t\<lparr>Test.esModules := OneString p\<rparr>) fe w =
       runTest L opts dir (t\<lparr>Test.esModules := StringArray [p]\<rparr>) fe w"
    by (rule runTest_cong) (simp_all add: unresolvedEsModules_def)
next
  fix r w'
  assume one: "runTest L opts dir t fe w = Some (r, w')"
  from runTest_trace[OF one] obtain mk wr where
    tr: "trace w' = trace w @ [progressLine t, invocation L opts dir t] @ mk @ wr"
    and mk: "\<forall>e \<in> set mk. is_mkdir e"
    and wr: "wr = [] \<or> (\<exists>result. wr = [WriteFileSync (snapshotPath L dir t) result])"
    by blast
  have w: "\<forall>q s. WriteFileSync q s \<in> set (mk @ wr) \<longrightarrow> q = resolve L dir (expectedOutput t)"
    using mk wr by (auto simp: snapshotPath_def is_mkdir_def)
  have n: "\<forall>fe'. r = Normal fe' \<longrightarrow> fe' = fe \<or>
              (\<exists>expected result. fe' = fe @
                 [\<lparr> testDescription = join '' '' (unresolvedEsModules t),
                    diff = createPatch L (resolve L dir (expectedOutput t)) expected result \<rparr>])"
    using runTest_Normal one by (fastforce simp: failure_def snapshotPath_def)
  show "\<exists>sent later. trace w' = trace w @ [progressLine t, CheckSideEffects sent] @ later \<and>
           CheckSideEffectsOptions.esModules sent = map (resolve L dir) (unresolvedEsModules t) \<and>
           (\<forall>q s. WriteFileSync q s \<in> set later \<longrightarrow> q = resolve L dir (expectedOutput t)) \<and>
           (\<forall>fe'. r = Normal fe' \<longrightarrow> fe' = fe \<or>
              (\<exists>expected result. fe' = fe @
                 [\<lparr> testDescription = join '' '' (unresolvedEsModules t),
                    diff = createPatch L (resolve L dir (expectedOutput t)) expected result \<rparr>]))"
    by (rule exI[of _ "testOptions opts (map (resolve L dir) (unresolvedEsModules t)) t"],
        rule exI[of _ "mk @ wr"])
      (use tr w n in \<open>simp add: invocation_def\<close>)
qed

theorem modules_and_snapshot_resolve_against_descriptor_witness:
  "loadTests sample_lib sample_opts_update ''/suite/tests.json'' sample_world =
     (Normal (''/suite'', sample_tests), sample_loaded) \<and>
   ParsedCliOptions.cwd sample_opts_update = ''/work'' \<and>
   ''/suite'' = dirname sample_lib
      (resolve sample_lib (ParsedCliOptions.cwd sample_opts_update) ''/suite/tests.json'') \<and>
   map (resolve sample_lib ''/suite'')
     (unresolvedEsModules (sample_test_a\<lparr>Test.esModules := OneString ''a.js''\<rparr>)) =
     [''/suite/a.js''] \<and>
   map (resolve sample_lib ''/suite'')
     (unresolvedEsModules (sample_test_a\<lparr>Test.esModules := StringArray [''a.js'']\<rparr>)) =
     [''/suite/a.js''] \<and>
   runTest sample_lib sample_opts_update ''/suite''
     (sample_test_a\<lparr>Test.esModules := OneString ''a.js''\<rparr>) [] sample_loaded =
   runTest sample_lib sample_opts_update ''/suite''
     (sample_test_a\<lparr>Test.esModules := StringArray [''a.js'']\<rparr>) [] sample_loaded \<and>
   runTest sample_lib sample_opts_update ''/suite'' sample_test_a [] sample_loaded =
     Some (Normal sample_failures, sample_updated_a) \<and>
   (\<exists>sent later.
      trace sample_updated_a =
        trace sample_loaded @ [progressLine sample_test_a, CheckSideEffects sent] @ later \<and>
      CheckSideEffectsOptions.esModules sent = [''/suite/a.js''] \<and>
      (\<forall>q s. WriteFileSync q s \<in> set later \<longrightarrow> q = ''/suite/out/a.snap''))"
proof -
  have cwd: "ParsedCliOptions.cwd sample_opts_update = ''/work''"
    and resolved: "resolve sample_lib ''/suite'' ''a.js'' = ''/suite/a.js''"
    and modules: "map (resolve sample_lib ''/suite'') (unresolvedEsModules sample_test_a) =
      [''/suite/a.js'']"
    by code_simp+
  note T = modules_and_snapshot_resolve_against_descriptor
    [where t = sample_test_a and p = "''a.js''" and fe = "[]" and w = sample_loaded,
      OF sample_descriptor_loaded(2)]
  from T sample_case_a(2) have "\<exists>sent later.
      trace sample_updated_a =
        trace sample_loaded @ [progressLine sample_test_a, CheckSideEffects sent] @ later \<and>
      CheckSideEffectsOptions.esModules sent = [''/suite/a.js''] \<and>
      (\<forall>q s. WriteFileSync q s \<in> set later \<longrightarrow> q = ''/suite/out/a.snap'')"
    unfolding sample_case_a_facts(5) modules by blast
  moreover from T have "''/suite'' = dirname sample_lib
      (resolve sample_lib (ParsedCliOptions.cwd sample_opts_update) ''/suite/tests.json'')"
    by blast
  moreover from T have
    "map (resolve sample_lib ''/suite'')
       (unresolvedEsModules (sample_test_a\<lparr>Test.esModules := OneString ''a.js''\<rparr>)) =
       [''/suite/a.js'']"
    "map (resolve sample_lib ''/suite'')
       (unresolvedEsModules (sample_test_a\<lparr>Test.esModules := StringArray [''a.js'']\<rparr>)) =
       [''/suite/a.js'']"
    unfolding resolved by blast+
  moreover from T have
    "runTest sample_lib sample_opts_update ''/suite''
       (sample_test_a\<lparr>Test.esModules := OneString ''a.js''\<rparr>) [] sample_loaded =
     runTest sample_lib sample_opts_update ''/suite''
       (sample_test_a\<lparr>Test.esModules := StringArray [''a.js'']\<rparr>) [] sample_loaded"
    by blast
  ultimately show ?thesis
    using sample_descriptor_loaded(2) sample_case_a(2) cwd by blast
qed

text \<open>
  C8. One test writes its snapshot at most once, and only in update mode when the checker's
  answer differs from the expected text: then the test creates missing directories and calls
  \<^verbatim>\<open>writeFileSync\<close> at most once, on its snapshot path and with the answer, and exactly once
  when it returns normally. In every other circumstance the world after the test is the world
  as the checker left it, with nothing but the progress line and the invocation added to the
  trace: the driver has changed no file. Over a whole loop there are therefore at most as many
  writes as tests, and outside update mode no write and no directory creation at all.
\<close>

theorem snapshot_written_only_on_update_mismatch:
  "(runTest L opts dir t fe w = Some (r, w') \<longrightarrow>
      (if update opts \<and> mismatch L opts dir t w
       then \<exists>mk wr. trace w' = trace (invoked L opts dir t w) @ mk @ wr \<and>
              list_all is_mkdir mk \<and>
              (wr = [] \<or> (\<exists>result. answer L opts dir t w = Inr result \<and>
                             wr = [WriteFileSync (snapshotPath L dir t) result])) \<and>
              ((\<exists>fe'. r = Normal fe') \<longrightarrow> wr \<noteq> [])
       else w' = invoked L opts dir t w)) \<and>
   (runTests L opts dir ts fe0 w0 = Some (r0, w0') \<longrightarrow>
      (\<exists>evs. trace w0' = trace w0 @ evs \<and> length (filter is_write evs) \<le> length ts \<and>
         (\<not> update opts \<longrightarrow> filter is_write evs = [] \<and> filter is_mkdir evs = [])))"
proof (intro conjI impI)
  assume one: "runTest L opts dir t fe w = Some (r, w')"
  show "if update opts \<and> mismatch L opts dir t w
       then \<exists>mk wr. trace w' = trace (invoked L opts dir t w) @ mk @ wr \<and>
              list_all is_mkdir mk \<and>
              (wr = [] \<or> (\<exists>result. answer L opts dir t w = Inr result \<and>
                             wr = [WriteFileSync (snapshotPath L dir t) result])) \<and>
              ((\<exists>fe'. r = Normal fe') \<longrightarrow> wr \<noteq> [])
       else w' = invoked L opts dir t w"
    using runTest_writes[OF one] by (simp add: list_all_iff)
next
  assume run: "runTests L opts dir ts fe0 w0 = Some (r0, w0')"
  from runTests_trace[OF run] obtain evs k where evs: "trace w0' = trace w0 @ evs" "k \<le> length ts"
    "length (filter is_write evs) \<le> k"
    "\<not> update opts \<longrightarrow> evs = concat (map (\<lambda>t. [progressLine t, invocation L opts dir t]) (take k ts))"
    by blast
  have "\<not> update opts \<longrightarrow> filter is_write evs = [] \<and> filter is_mkdir evs = []"
  proof
    assume "\<not> update opts"
    with evs(4) have "evs = concat (map (\<lambda>t. [progressLine t, invocation L opts dir t]) (take k ts))"
      by simp
    then show "filter is_write evs = [] \<and> filter is_mkdir evs = []"
      by (simp add: filter_concat filter_empty_conv)
  qed
  with evs show "\<exists>evs. trace w0' = trace w0 @ evs \<and> length (filter is_write evs) \<le> length ts \<and>
         (\<not> update opts \<longrightarrow> filter is_write evs = [] \<and> filter is_mkdir evs = [])"
    by (intro exI[of _ evs]) auto
qed

theorem snapshot_written_only_on_update_mismatch_witness:
  "runTest sample_lib sample_opts_update ''/suite'' sample_test_a [] sample_loaded =
     Some (Normal sample_failures, sample_updated_a) \<and>
   update sample_opts_update \<and>
   mismatch sample_lib sample_opts_update ''/suite'' sample_test_a sample_loaded \<and>
   (\<exists>mk wr. trace sample_updated_a = trace sample_after_a @ mk @ wr \<and>
      list_all is_mkdir mk \<and>
      wr = [WriteFileSync ''/suite/out/a.snap'' ''checked /suite/a.js'']) \<and>
   runTest sample_lib sample_opts ''/suite'' sample_test_a [] sample_loaded =
     Some (Normal sample_failures, sample_after_a) \<and>
   \<not> update sample_opts \<and>
   sample_after_a = invoked sample_lib sample_opts ''/suite'' sample_test_a sample_loaded \<and>
   runTests sample_lib sample_opts_update ''/suite'' sample_tests [] sample_loaded =
     Some (Normal sample_failures, sample_ran_update) \<and>
   (\<exists>evs. trace sample_ran_update = trace sample_loaded @ evs \<and>
      length (filter is_write evs) \<le> length sample_tests) \<and>
   runTests sample_lib sample_opts ''/suite'' sample_tests [] sample_loaded =
     Some (Normal sample_failures, sample_ran) \<and>
   (\<exists>evs. trace sample_ran = trace sample_loaded @ evs \<and>
      filter is_write evs = [] \<and> filter is_mkdir evs = [])"
proof -
  note updating = snapshot_written_only_on_update_mismatch
    [of sample_lib sample_opts_update "''/suite''" sample_test_a "[]" sample_loaded
      "Normal sample_failures" sample_updated_a sample_tests "[]" sample_loaded
      "Normal sample_failures" sample_ran_update]
  note plain = snapshot_written_only_on_update_mismatch
    [of sample_lib sample_opts "''/suite''" sample_test_a "[]" sample_loaded
      "Normal sample_failures" sample_after_a sample_tests "[]" sample_loaded
      "Normal sample_failures" sample_ran]
  from updating sample_case_a(2) sample_parsed_update(4) sample_case_a_facts(9)
  have "\<exists>mk wr. trace sample_updated_a = trace sample_after_a @ mk @ wr \<and>
      list_all is_mkdir mk \<and>
      wr = [WriteFileSync ''/suite/out/a.snap'' ''checked /suite/a.js'']"
    unfolding sample_case_a_facts(2,4,6) by auto
  moreover from updating sample_loop(2)
  have "\<exists>evs. trace sample_ran_update = trace sample_loaded @ evs \<and>
      length (filter is_write evs) \<le> length sample_tests"
    by blast
  moreover from plain sample_case_a(1) sample_parsed(4)
  have "sample_after_a = invoked sample_lib sample_opts ''/suite'' sample_test_a sample_loaded"
    by simp
  moreover from plain sample_loop(1) sample_parsed(4)
  have "\<exists>evs. trace sample_ran = trace sample_loaded @ evs \<and>
      filter is_write evs = [] \<and> filter is_mkdir evs = []"
    by blast
  ultimately show ?thesis
    using sample_case_a sample_loop sample_parsed(4) sample_parsed_update(4)
      sample_case_a_facts(9)
    by blast
qed



text \<open>
  C10. The recursive directory-creation helper returns for every path whose chain of ancestors
  under \<^verbatim>\<open>dirname\<close> reaches a path that exists (after \<open>n\<close> steps, for any \<open>n\<close>; a root that
  exists and is its own \<^verbatim>\<open>dirname\<close> is such an end of every chain that reaches it), and when
  the given path already exists it returns at once, leaving the file system and the trace as
  they were: no directory is created.
\<close>

theorem recursiveMkDir_terminates:
  "(existsSync L (files w) ((dirname L ^^ n) path) \<longrightarrow>
      (\<exists>r w'. recursiveMkDir L path w = Some (r, w'))) \<and>
   (existsSync L (files w) path \<longrightarrow> recursiveMkDir L path w = Some (Normal (), w))"
  using recursiveMkDir_returns[of L w n path] recursiveMkDir_existing[of L w path] by auto

theorem recursiveMkDir_terminates_witness:
  "existsSync sample_lib (files sample_world) ((dirname sample_lib ^^ 2) ''/suite/out/deep'') \<and>
   (\<exists>r w'. recursiveMkDir sample_lib ''/suite/out/deep'' sample_world = Some (r, w')) \<and>
   existsSync sample_lib (files sample_world) ''/suite'' \<and>
   recursiveMkDir sample_lib ''/suite'' sample_world = Some (Normal (), sample_world)"
proof -
  have far: "existsSync sample_lib (files sample_world)
               ((dirname sample_lib ^^ 2) ''/suite/out/deep'')"
    by (simp add: sample_lib_def sample_world_def sample_files_def sample_exists_def
        sample_node_def sample_dirname_def numeral_2_eq_2)
  have here: "existsSync sample_lib (files sample_world) ''/suite''"
    by (simp add: sample_lib_def sample_world_def sample_files_def sample_exists_def
        sample_node_def)
  show ?thesis
    using far here
      recursiveMkDir_terminates[of sample_lib sample_world 2 "''/suite/out/deep''"]
      recursiveMkDir_terminates[of sample_lib sample_world 0 "''/suite''"]
    by blast
qed

end
